theory Spec2Isabelle
  imports Main
begin

section \<open>Strings\<close>

text \<open>
  JavaScript strings are modelled as HOL strings, that is lists of 8-bit characters (the
  code units up to 0xFF).  The helpers below are the pieces of the JavaScript string
  library that the gateway's source calls.
\<close>

definition startsWith :: "string \<Rightarrow> string \<Rightarrow> bool" where
  "startsWith s p = (take (length p) s = p)"

text \<open>
  \<open>s.replace(/lit/g, rep)\<close> for a literal, non-empty search text whose replacement holds no
  \<open>$\<close>: a scan from the left that replaces every occurrence and resumes after it.
\<close>

function replaceAll :: "string \<Rightarrow> string \<Rightarrow> string \<Rightarrow> string" where
  "replaceAll pat rep [] = []"
| "replaceAll pat rep (c # cs) =
     (if pat \<noteq> [] \<and> startsWith (c # cs) pat
      then rep @ replaceAll pat rep (drop (length pat) (c # cs))
      else c # replaceAll pat rep cs)"
  by pat_completeness auto
termination
  by (relation "measure (\<lambda>(pat, rep, s). length s)") (auto simp: neq_Nil_conv)

text \<open>
  \<open>s.split(sep)\<close>.  With an empty separator the result is the list of the characters of
  \<open>s\<close>; otherwise \<open>s\<close> is cut at every occurrence of \<open>sep\<close> found by a scan from the left
  (\<open>splitFrom\<close>, whose second argument is the piece read so far).
\<close>

function splitFrom :: "string \<Rightarrow> string \<Rightarrow> string \<Rightarrow> string list" where
  "splitFrom sep piece [] = [piece]"
| "splitFrom sep piece (c # cs) =
     (if sep \<noteq> [] \<and> startsWith (c # cs) sep
      then piece # splitFrom sep [] (drop (length sep) (c # cs))
      else splitFrom sep (piece @ [c]) cs)"
  by pat_completeness auto
termination
  by (relation "measure (\<lambda>(sep, piece, s). length s)") (auto simp: neq_Nil_conv)

definition splitString :: "string \<Rightarrow> string \<Rightarrow> string list" where
  "splitString s sep = (if sep = [] then map (\<lambda>c. [c]) s else splitFrom sep [] s)"

text \<open>\<open>pieces.join(glue)\<close>.\<close>

fun join :: "string list \<Rightarrow> string \<Rightarrow> string" where
  "join [] glue = []"
| "join [p] glue = p"
| "join (p # q # ps) glue = p @ glue @ join (q # ps) glue"

text \<open>
  The replacement text of \<open>String.prototype.replace\<close> is a template: \<open>$$\<close> stands for a
  dollar, \<open>$&\<close> for the matched text, \<open>$`\<close> for the text before the match and \<open>$'\<close> for
  the text after it.  (The expressions built here have no capture groups, so \<open>$1\<close> and
  the like stand for themselves.)
\<close>

fun getSubstitution :: "string \<Rightarrow> string \<Rightarrow> string \<Rightarrow> string \<Rightarrow> string" where
  "getSubstitution matched preceding following [] = []"
| "getSubstitution matched preceding following [c] = [c]"
| "getSubstitution matched preceding following (c # d # cs) =
     (if c = CHR ''$'' \<and> d = CHR ''$'' then CHR ''$'' # getSubstitution matched preceding following cs
      else if c = CHR ''$'' \<and> d = CHR ''&'' then matched @ getSubstitution matched preceding following cs
      else if c = CHR ''$'' \<and> d = CHR 0x60 then preceding @ getSubstitution matched preceding following cs
      else if c = CHR ''$'' \<and> d = CHR 0x27 then following @ getSubstitution matched preceding following cs
      else c # getSubstitution matched preceding following (d # cs))"

text \<open>
  \<open>s.replace(new RegExp(escapeRegExp(source), 'gi'), target)\<close>: the expression is the
  literal \<open>source\<close>, matched with the \<open>i\<close> flag, which compares characters after the
  engine's case canonicalisation \<open>canon\<close> (a parameter: the table belongs to the
  JavaScript engine).  The second argument is the text already passed.  An empty
  \<open>source\<close> gives the empty expression, which matches before every character and at the
  end.
\<close>

function replaceIgnoreCase ::
  "(char \<Rightarrow> char) \<Rightarrow> string \<Rightarrow> string \<Rightarrow> string \<Rightarrow> string \<Rightarrow> string" where
  "replaceIgnoreCase canon source target preceding [] =
     (if source = [] then getSubstitution [] preceding [] target else [])"
| "replaceIgnoreCase canon source target preceding (c # cs) =
     (if source = []
      then getSubstitution [] preceding (c # cs) target
             @ c # replaceIgnoreCase canon source target (preceding @ [c]) cs
      else if map canon (take (length source) (c # cs)) = map canon source
      then getSubstitution (take (length source) (c # cs)) preceding
               (drop (length source) (c # cs)) target
             @ replaceIgnoreCase canon source target
                 (preceding @ take (length source) (c # cs)) (drop (length source) (c # cs))
      else c # replaceIgnoreCase canon source target (preceding @ [c]) cs)"
  by pat_completeness auto
termination
  by (relation "measure (\<lambda>(canon, source, target, preceding, s). length s)")
     (auto simp: neq_Nil_conv)

section \<open>The pattern matcher (src/middleware/policy.ts, src/db/grants.ts, src/db/policy-rules.ts)\<close>

text \<open>
  The three copies of \<open>matchesPattern\<close> in the source are the same text.  The pattern is
  rewritten into the source of a regular expression by four \<open>replace\<close> calls, anchored, and
  tested against the tool name.
\<close>

definition backslash :: char where
  "backslash = CHR 0x5C"

text \<open>The characters of the class \<open>[.+?^${}()|[\]\\]\<close>.\<close>

definition regexSpecial :: "char \<Rightarrow> bool" where
  "regexSpecial c = (c \<in> set ''.+?^${}()|[]'' \<or> c = backslash)"

text \<open>\<open>.replace(/[.+?^${}()|[\]\\]/g, '\\$&')\<close>: a backslash before every special character.\<close>

definition escapeSpecial :: "string \<Rightarrow> string" where
  "escapeSpecial s = concat (map (\<lambda>c. if regexSpecial c then [backslash, c] else [c]) s)"

definition DOUBLE_WILDCARD :: string where
  "DOUBLE_WILDCARD = ''__DOUBLE_WILDCARD__''"

definition regexPattern :: "string \<Rightarrow> string" where
  "regexPattern pattern =
     replaceAll DOUBLE_WILDCARD ''.*''
       (replaceAll ''*'' ''[^/]*''
         (replaceAll ''**'' DOUBLE_WILDCARD
           (escapeSpecial pattern)))"

text \<open>
  The regular expressions that \<open>regexPattern\<close> produces are sequences of four kinds of
  atom: an escaped special character, the class loop \<open>[^/]*\<close>, the loop \<open>.*\<close>, and any
  other character standing for itself.  \<open>compileRegex\<close> reads the source text as
  \<open>new RegExp\<close> does on that fragment.
\<close>

datatype atom = Lit char | NotSlashStar | DotStar

fun compileRegex :: "string \<Rightarrow> atom list" where
  "compileRegex [] = []"
| "compileRegex [c] = [Lit c]"
| "compileRegex (c # d # cs) =
     (if c = backslash then Lit d # compileRegex cs
      else if c = CHR ''.'' \<and> d = CHR ''*'' then DotStar # compileRegex cs
      else if c = CHR ''['' \<and> startsWith (d # cs) ''^/]*''
        then NotSlashStar # compileRegex (drop 4 (d # cs))
      else Lit c # compileRegex (d # cs))"

text \<open>
  Without the \<open>s\<close> flag the dot matches any character except the line terminators; of
  these, line feed and carriage return are 8-bit characters.
\<close>

definition lineTerminator :: "char \<Rightarrow> bool" where
  "lineTerminator c = (c = CHR 0x0A \<or> c = CHR 0x0D)"

text \<open>
  \<open>regexTest as s\<close>: the atoms match the whole of \<open>s\<close> (the expression is anchored by
  \<open>^\<close> and \<open>$\<close>, with no \<open>m\<close> flag).  A loop takes no character or one more.
\<close>

fun regexTest :: "atom list \<Rightarrow> string \<Rightarrow> bool" where
  "regexTest [] s = (s = [])"
| "regexTest (Lit c # as) [] = False"
| "regexTest (Lit c # as) (x # xs) = (x = c \<and> regexTest as xs)"
| "regexTest (NotSlashStar # as) [] = regexTest as []"
| "regexTest (NotSlashStar # as) (x # xs) =
     (regexTest as (x # xs) \<or> (x \<noteq> CHR ''/'' \<and> regexTest (NotSlashStar # as) xs))"
| "regexTest (DotStar # as) [] = regexTest as []"
| "regexTest (DotStar # as) (x # xs) =
     (regexTest as (x # xs) \<or> (\<not> lineTerminator x \<and> regexTest (DotStar # as) xs))"

definition matchesPattern :: "string \<Rightarrow> string \<Rightarrow> bool" where
  "matchesPattern toolName pattern =
     (if pattern = ''*'' then True
      else regexTest (compileRegex (regexPattern pattern)) toolName)"

section \<open>The pattern language in the specification's words\<close>

text \<open>
  The specification describes patterns as globs: \<open>**\<close> matches any characters, \<open>*\<close> any
  run of characters without the separator \<open>/\<close>, every other character stands for itself,
  and a pattern matches the whole name.  \<open>globTokens\<close> reads a pattern from the left, two
  stars before one; \<open>globMatch\<close> is the matching relation.  These definitions are written
  from the specification and are compared with \<open>matchesPattern\<close> below.
\<close>

datatype glob = GChar char | GStar | GStarStar

fun globTokens :: "string \<Rightarrow> glob list" where
  "globTokens [] = []"
| "globTokens [c] = [if c = CHR ''*'' then GStar else GChar c]"
| "globTokens (c # d # cs) =
     (if c = CHR ''*'' \<and> d = CHR ''*'' then GStarStar # globTokens cs
      else if c = CHR ''*'' then GStar # globTokens (d # cs)
      else GChar c # globTokens (d # cs))"

fun globMatch :: "glob list \<Rightarrow> string \<Rightarrow> bool" where
  "globMatch [] s = (s = [])"
| "globMatch (GChar c # gs) [] = False"
| "globMatch (GChar c # gs) (x # xs) = (x = c \<and> globMatch gs xs)"
| "globMatch (GStar # gs) [] = globMatch gs []"
| "globMatch (GStar # gs) (x # xs) =
     (globMatch gs (x # xs) \<or> (x \<noteq> CHR ''/'' \<and> globMatch (GStar # gs) xs))"
| "globMatch (GStarStar # gs) [] = globMatch gs []"
| "globMatch (GStarStar # gs) (x # xs) =
     (globMatch gs (x # xs) \<or> globMatch (GStarStar # gs) xs)"

text \<open>\<open>contains s sub\<close>: the text \<open>sub\<close> occurs in \<open>s\<close>.\<close>

fun contains :: "string \<Rightarrow> string \<Rightarrow> bool" where
  "contains [] sub = (sub = [])"
| "contains (c # cs) sub = (startsWith (c # cs) sub \<or> contains cs sub)"

text \<open>
  What a token has become after the second, the third and the fourth \<open>replace\<close> of
  \<open>matchesPattern\<close>, and the atom it compiles to.
\<close>

fun render2 :: "glob \<Rightarrow> string" where
  "render2 (GChar c) = (if regexSpecial c then [backslash, c] else [c])"
| "render2 GStar = ''*''"
| "render2 GStarStar = DOUBLE_WILDCARD"

fun render3 :: "glob \<Rightarrow> string" where
  "render3 (GChar c) = (if regexSpecial c then [backslash, c] else [c])"
| "render3 GStar = ''[^/]*''"
| "render3 GStarStar = DOUBLE_WILDCARD"

fun render4 :: "glob \<Rightarrow> string" where
  "render4 (GChar c) = (if regexSpecial c then [backslash, c] else [c])"
| "render4 GStar = ''[^/]*''"
| "render4 GStarStar = ''.*''"

fun toAtom :: "glob \<Rightarrow> atom" where
  "toAtom (GChar c) = Lit c"
| "toAtom GStar = NotSlashStar"
| "toAtom GStarStar = DotStar"

definition R3 :: "string \<Rightarrow> string" where
  "R3 p = concat (map render3 (globTokens p))"

definition R4 :: "string \<Rightarrow> string" where
  "R4 p = concat (map render4 (globTokens p))"

section \<open>Structured values\<close>

text \<open>
  Tool arguments and results are JSON values.  An object is the list of its entries in
  \<open>Object.entries\<close> order.  Numbers are kept as integers; none of the code modelled
  here computes with them.
\<close>

datatype json =
    JNull
  | JBool bool
  | JNum int
  | JStr string
  | JArr "json list"
  | JObj "(string \<times> json) list"


section \<open>The file store (src/storage/file-store.ts)\<close>

text \<open>
  A collection file either does not exist, holds text that \<open>JSON.parse\<close> rejects, or
  holds a document.  The type parameter is the shape the caller casts the parsed value
  to, so \<open>Document\<close> stands for a file whose text parses to a value of that shape.
\<close>

datatype 'a jsonFile = Missing | Unparseable string | Document 'a

text \<open>
  \<open>readJsonFile\<close>: \<open>readFile\<close> throws on a missing file and \<open>JSON.parse\<close> throws on text
  that is not JSON; the \<open>catch\<close> returns the fallback for both.
\<close>

definition readJsonFile :: "'a jsonFile \<Rightarrow> 'a \<Rightarrow> 'a" where
  "readJsonFile file fallback =
     (case file of
        Missing \<Rightarrow> fallback
      | Unparseable raw \<Rightarrow> fallback
      | Document d \<Rightarrow> d)"

text \<open>
  \<open>writeJsonFileAtomic\<close> serialises the data into \<open>path.tmp\<close> and renames it over
  \<open>path\<close>; the result is the new content of \<open>path\<close>, whatever it held before.
\<close>

definition writeJsonFileAtomic :: "'a jsonFile \<Rightarrow> 'a \<Rightarrow> 'a jsonFile" where
  "writeJsonFileAtomic file d = Document d"

section \<open>Policy actions\<close>

datatype PolicyAction = Allow | Deny | RequireApproval

section \<open>The tasks store (src/db/tasks.ts)\<close>

datatype TaskStatus =
    PendingApproval
  | ApprovedQueued
  | Executing
  | Completed
  | Denied
  | Error

text \<open>
  A row of \<open>tasks.json\<close>.  Times are milliseconds since the epoch (the source stores
  their ISO-8601 text); an optional field of the source is an option here.
\<close>

record TaskRow =
  t_id :: string
  t_toolName :: string
  t_args :: json
  t_originalArgs :: json
  t_status :: TaskStatus
  t_result :: "json option"
  t_error :: "string option"
  t_policyAction :: PolicyAction
  t_telegramMessageId :: "int option"
  t_createdAt :: int
  t_approvedAt :: "int option"
  t_executedAt :: "int option"
  t_checkedAt :: "int option"

text \<open>
  \<open>const row = data.tasks.find(...)\<close> followed by assignments to \<open>row\<close> changes the
  first row that satisfies the test, in place.
\<close>

fun updateFirst :: "('a \<Rightarrow> bool) \<Rightarrow> ('a \<Rightarrow> 'a) \<Rightarrow> 'a list \<Rightarrow> 'a list" where
  "updateFirst P f [] = []"
| "updateFirst P f (x # xs) = (if P x then f x # xs else x # updateFirst P f xs)"

text \<open>\<open>TasksDB.create\<close>; \<open>newId\<close> is the value of \<open>uuidv4()\<close> and \<open>now\<close> of \<open>new Date()\<close>.\<close>

definition TasksDB_create ::
  "string \<Rightarrow> int \<Rightarrow> string \<Rightarrow> json \<Rightarrow> json \<Rightarrow> PolicyAction \<Rightarrow> TaskRow list jsonFile
     \<Rightarrow> TaskRow \<times> TaskRow list jsonFile" where
  "TasksDB_create newId now toolName args originalArgs policyAction tasksJson =
     (let data = readJsonFile tasksJson [];
          row = \<lparr> t_id = newId, t_toolName = toolName, t_args = args,
                  t_originalArgs = originalArgs, t_status = PendingApproval,
                  t_result = None, t_error = None, t_policyAction = policyAction,
                  t_telegramMessageId = None, t_createdAt = now, t_approvedAt = None,
                  t_executedAt = None, t_checkedAt = None \<rparr>
      in (row, writeJsonFileAtomic tasksJson (row # data)))"

definition TasksDB_get :: "string \<Rightarrow> TaskRow list jsonFile \<Rightarrow> TaskRow option" where
  "TasksDB_get tid tasksJson = find (\<lambda>t. t_id t = tid) (readJsonFile tasksJson [])"

text \<open>
  The three writers below follow one shape: read, find the row, return when there is
  none, assign, write.  None of them reads \<open>row.status\<close>.
\<close>

definition TasksDB_updateStatus ::
  "int \<Rightarrow> string \<Rightarrow> TaskStatus \<Rightarrow> TaskRow list jsonFile \<Rightarrow> TaskRow list jsonFile" where
  "TasksDB_updateStatus now tid status tasksJson =
     (let data = readJsonFile tasksJson [] in
      case find (\<lambda>t. t_id t = tid) data of
        None \<Rightarrow> tasksJson
      | Some row \<Rightarrow>
          writeJsonFileAtomic tasksJson
            (updateFirst (\<lambda>t. t_id t = tid)
               (\<lambda>r. (let r1 = r\<lparr> t_status := status \<rparr>;
                          r2 = (if status = ApprovedQueued then r1\<lparr> t_approvedAt := Some now \<rparr> else r1)
                      in if status = Executing then r2\<lparr> t_executedAt := Some now \<rparr> else r2))
               data))"

definition TasksDB_setResult ::
  "int \<Rightarrow> string \<Rightarrow> json \<Rightarrow> TaskRow list jsonFile \<Rightarrow> TaskRow list jsonFile" where
  "TasksDB_setResult now tid res tasksJson =
     (let data = readJsonFile tasksJson [] in
      case find (\<lambda>t. t_id t = tid) data of
        None \<Rightarrow> tasksJson
      | Some row \<Rightarrow>
          writeJsonFileAtomic tasksJson
            (updateFirst (\<lambda>t. t_id t = tid)
               (\<lambda>r. r\<lparr> t_status := Completed, t_result := Some res, t_executedAt := Some now \<rparr>)
               data))"

definition TasksDB_setError ::
  "int \<Rightarrow> string \<Rightarrow> string \<Rightarrow> TaskRow list jsonFile \<Rightarrow> TaskRow list jsonFile" where
  "TasksDB_setError now tid err tasksJson =
     (let data = readJsonFile tasksJson [] in
      case find (\<lambda>t. t_id t = tid) data of
        None \<Rightarrow> tasksJson
      | Some row \<Rightarrow>
          writeJsonFileAtomic tasksJson
            (updateFirst (\<lambda>t. t_id t = tid)
               (\<lambda>r. r\<lparr> t_status := Error, t_error := Some err, t_executedAt := Some now \<rparr>)
               data))"

definition TasksDB_setTelegramMessageId ::
  "string \<Rightarrow> int \<Rightarrow> TaskRow list jsonFile \<Rightarrow> TaskRow list jsonFile" where
  "TasksDB_setTelegramMessageId tid messageId tasksJson =
     (let data = readJsonFile tasksJson [] in
      case find (\<lambda>t. t_id t = tid) data of
        None \<Rightarrow> tasksJson
      | Some row \<Rightarrow>
          writeJsonFileAtomic tasksJson
            (updateFirst (\<lambda>t. t_id t = tid) (\<lambda>r. r\<lparr> t_telegramMessageId := Some messageId \<rparr>) data))"


text \<open>
  The state machine of the specification, as the relation of its six edges.  It is
  written from the specification's diagram; the store above has no counterpart of it.
\<close>

fun fsmEdge :: "TaskStatus \<Rightarrow> TaskStatus \<Rightarrow> bool" where
  "fsmEdge PendingApproval ApprovedQueued = True"
| "fsmEdge PendingApproval Denied = True"
| "fsmEdge PendingApproval Error = True"
| "fsmEdge ApprovedQueued Executing = True"
| "fsmEdge Executing Completed = True"
| "fsmEdge Executing Error = True"
| "fsmEdge s s' = False"

section \<open>Dynamic policy rules (src/db/policy-rules.ts)\<close>

record PolicyRuleRow =
  rule_id :: string
  rule_pattern :: string
  rule_action :: PolicyAction
  rule_createdAt :: int

text \<open>The loop \<open>for (const rule of data.rules) if (matchesPattern(...)) return ...\<close>.\<close>

fun firstMatchingRule :: "string \<Rightarrow> PolicyRuleRow list \<Rightarrow> PolicyRuleRow option" where
  "firstMatchingRule toolName [] = None"
| "firstMatchingRule toolName (rule # rules) =
     (if matchesPattern toolName (rule_pattern rule) then Some rule
      else firstMatchingRule toolName rules)"

text \<open>
  \<open>PolicyRulesDB.resolveDetailed\<close>.  The source returns the action with the rule's id and
  pattern; the row returned here carries the three.
\<close>

definition resolveDetailed :: "PolicyRuleRow list jsonFile \<Rightarrow> string \<Rightarrow> PolicyRuleRow option" where
  "resolveDetailed rulesJson toolName =
     (let data = readJsonFile rulesJson [] in
      case find (\<lambda>r. rule_pattern r = toolName) data of
        Some exact \<Rightarrow> Some exact
      | None \<Rightarrow> firstMatchingRule toolName data)"

text \<open>
  \<open>PolicyRulesDB.upsert\<close>: the action of the first rule with that pattern is replaced, or
  a new rule is put in front.
\<close>

definition PolicyRulesDB_upsert ::
  "string \<Rightarrow> int \<Rightarrow> string \<Rightarrow> PolicyAction \<Rightarrow> PolicyRuleRow list jsonFile
     \<Rightarrow> PolicyRuleRow list jsonFile" where
  "PolicyRulesDB_upsert newId now pat act rulesJson =
     (let data = readJsonFile rulesJson [] in
      case find (\<lambda>r. rule_pattern r = pat) data of
        Some existing \<Rightarrow>
          writeJsonFileAtomic rulesJson
            (updateFirst (\<lambda>r. rule_pattern r = pat) (\<lambda>r. r\<lparr> rule_action := act \<rparr>) data)
      | None \<Rightarrow>
          writeJsonFileAtomic rulesJson
            (\<lparr> rule_id = newId, rule_pattern = pat, rule_action = act, rule_createdAt = now \<rparr> # data))"

section \<open>The policy engine (src/middleware/policy.ts)\<close>

text \<open>
  \<open>policies\<close> is the configuration object \<open>Record<string, PolicyAction>\<close> as the list of
  its entries, in the order \<open>Object.entries\<close> yields them; \<open>policies[toolName]\<close> is the
  lookup of an entry.  \<open>hasPolicyRulesDB\<close> says whether the optional third constructor
  argument was given.
\<close>

record PolicyEngine =
  policies :: "(string \<times> PolicyAction) list"
  defaultPolicy :: PolicyAction
  hasPolicyRulesDB :: bool

datatype PolicySource = DbRule | ConfigExact | ConfigPattern | Default

record PolicyDecision =
  action :: PolicyAction
  source :: PolicySource
  pattern :: "string option"
  ruleId :: "string option"

text \<open>The loop over \<open>Object.entries(this.policies)\<close>.\<close>

fun firstMatchingEntry ::
  "string \<Rightarrow> (string \<times> PolicyAction) list \<Rightarrow> (string \<times> PolicyAction) option" where
  "firstMatchingEntry toolName [] = None"
| "firstMatchingEntry toolName ((pat, act) # entries) =
     (if matchesPattern toolName pat then Some (pat, act)
      else firstMatchingEntry toolName entries)"

definition checkPolicyDetailed ::
  "PolicyEngine \<Rightarrow> PolicyRuleRow list jsonFile \<Rightarrow> string \<Rightarrow> PolicyDecision" where
  "checkPolicyDetailed engine rulesJson toolName =
     (case (if hasPolicyRulesDB engine then resolveDetailed rulesJson toolName else None) of
        Some resolved \<Rightarrow>
          \<lparr> action = rule_action resolved, source = DbRule,
            pattern = Some (rule_pattern resolved), ruleId = Some (rule_id resolved) \<rparr>
      | None \<Rightarrow>
          (case map_of (policies engine) toolName of
             Some act \<Rightarrow>
               \<lparr> action = act, source = ConfigExact, pattern = Some toolName, ruleId = None \<rparr>
           | None \<Rightarrow>
               (case firstMatchingEntry toolName (policies engine) of
                  Some (pat, act) \<Rightarrow>
                    \<lparr> action = act, source = ConfigPattern, pattern = Some pat, ruleId = None \<rparr>
                | None \<Rightarrow>
                    \<lparr> action = defaultPolicy engine, source = Default,
                      pattern = None, ruleId = None \<rparr>)))"





section \<open>Grants (src/db/grants.ts)\<close>

text \<open>
  A row of \<open>grants.json\<close>.  \<open>g_expiresAt\<close> is \<open>new Date(g.expiresAt).getTime()\<close>: \<open>None\<close>
  when the stored text is not a date (the source's \<open>NaN\<close>, which \<open>Number.isFinite\<close>
  rejects).
\<close>

record GrantRow =
  g_id :: string
  g_pattern :: string
  g_createdAt :: int
  g_expiresAt :: "int option"

fun activeGrantLoop :: "int \<Rightarrow> string \<Rightarrow> GrantRow list \<Rightarrow> bool" where
  "activeGrantLoop now toolName [] = False"
| "activeGrantLoop now toolName (g # gs) =
     (case g_expiresAt g of
        None \<Rightarrow> activeGrantLoop now toolName gs
      | Some exp \<Rightarrow>
          (if exp > now \<and> matchesPattern toolName (g_pattern g) then True
           else activeGrantLoop now toolName gs))"

definition hasActiveGrant :: "int \<Rightarrow> GrantRow list jsonFile \<Rightarrow> string \<Rightarrow> bool" where
  "hasActiveGrant now grantsJson toolName =
     activeGrantLoop now toolName (readJsonFile grantsJson [])"

definition GrantsDB_create ::
  "string \<Rightarrow> int \<Rightarrow> string \<Rightarrow> int \<Rightarrow> GrantRow list jsonFile \<Rightarrow> GrantRow list jsonFile" where
  "GrantsDB_create newId now pat durationSeconds grantsJson =
     (let data = readJsonFile grantsJson []
      in writeJsonFileAtomic grantsJson
           (\<lparr> g_id = newId, g_pattern = pat, g_createdAt = now,
              g_expiresAt = Some (now + durationSeconds * 1000) \<rparr> # data))"

section \<open>The anonymizer (src/middleware/anonymizer.ts)\<close>

record Replacement =
  fake :: string
  real :: string
  bidirectional :: bool
  caseSensitive :: "bool option"
  responseReplacement :: "string option"

datatype Direction = ToReal | ToFake

definition REDACTED :: string where
  "REDACTED = ''***REDACTED***''"

text \<open>
  \<open>a || b\<close> on an optional string: \<open>undefined\<close> and the empty string are both falsy, so
  both give \<open>b\<close>.
\<close>

definition orElse :: "string option \<Rightarrow> string \<Rightarrow> string" where
  "orElse a b = (case a of None \<Rightarrow> b | Some x \<Rightarrow> (if x = [] then b else x))"

text \<open>The body of the loop of \<open>replaceInValue\<close>: one rule applied to \<open>result\<close>.\<close>

definition applyReplacement ::
  "(char \<Rightarrow> char) \<Rightarrow> Direction \<Rightarrow> string \<Rightarrow> Replacement \<Rightarrow> string" where
  "applyReplacement canon direction result replacement =
     (let source = (if direction = ToReal then fake replacement else real replacement);
          target =
            (if direction = ToReal then real replacement
             else if \<not> bidirectional replacement
               then orElse (responseReplacement replacement) REDACTED
             else fake replacement)
      in if caseSensitive replacement \<noteq> Some False
         then join (splitString result source) target
         else replaceIgnoreCase canon source target [] result)"

definition replaceInValue ::
  "(char \<Rightarrow> char) \<Rightarrow> Replacement list \<Rightarrow> string \<Rightarrow> Direction \<Rightarrow> string" where
  "replaceInValue canon replacements v direction =
     foldl (applyReplacement canon direction) v replacements"

text \<open>
  \<open>result[newKey] = value\<close> on the object under construction: an existing property keeps
  its place and takes the new value, a new one is added last.
\<close>

fun setProperty :: "(string \<times> json) list \<Rightarrow> string \<Rightarrow> json \<Rightarrow> (string \<times> json) list" where
  "setProperty [] k v = [(k, v)]"
| "setProperty ((k', v') # kvs) k v =
     (if k' = k then (k', v) # kvs else (k', v') # setProperty kvs k v)"

fun deepTraverse :: "(string \<Rightarrow> string) \<Rightarrow> json \<Rightarrow> json" where
  "deepTraverse replacer (JStr s) = JStr (replacer s)"
| "deepTraverse replacer (JArr items) = JArr (map (deepTraverse replacer) items)"
| "deepTraverse replacer (JObj kvs) =
     JObj (foldl (\<lambda>result kv. setProperty result (fst kv) (snd kv)) []
             (map (\<lambda>kv. (replacer (fst kv), deepTraverse replacer (snd kv))) kvs))"
| "deepTraverse replacer JNull = JNull"
| "deepTraverse replacer (JBool b) = JBool b"
| "deepTraverse replacer (JNum n) = JNum n"

definition anonymizeRequest :: "(char \<Rightarrow> char) \<Rightarrow> Replacement list \<Rightarrow> json \<Rightarrow> json" where
  "anonymizeRequest canon replacements d =
     deepTraverse (\<lambda>v. replaceInValue canon replacements v ToReal) d"

definition deanonymizeResponse :: "(char \<Rightarrow> char) \<Rightarrow> Replacement list \<Rightarrow> json \<Rightarrow> json" where
  "deanonymizeResponse canon replacements d =
     deepTraverse (\<lambda>v. replaceInValue canon replacements v ToFake) d"

section \<open>The audit log (src/db/audit.ts)\<close>

record AuditRow =
  a_timestamp :: int
  a_toolName :: string
  a_args :: json
  a_result :: "json option"
  a_policyAction :: "PolicyAction option"
  a_approvalStatus :: "string option"
  a_error :: "string option"

text \<open>\<open>AuditDB.log\<close> appends one line to the audit stream.\<close>

definition AuditDB_log ::
  "int \<Rightarrow> string \<Rightarrow> json \<Rightarrow> json option \<Rightarrow> PolicyAction option \<Rightarrow> string option
     \<Rightarrow> string option \<Rightarrow> AuditRow list \<Rightarrow> AuditRow list" where
  "AuditDB_log now toolName args res policyAction approvalStatus err auditNdjson =
     auditNdjson @
       [\<lparr> a_timestamp = now, a_toolName = toolName, a_args = args, a_result = res,
          a_policyAction = policyAction, a_approvalStatus = approvalStatus, a_error = err \<rparr>]"

section \<open>The Telegram bot (src/telegram/bot.ts)\<close>

datatype NoticeStatus = NoticeOk | NoticeBlocked | NoticeError

record ExecutionNotice =
  n_status :: NoticeStatus
  n_toolName :: string
  n_policyAction :: PolicyAction
  n_policySource :: PolicySource
  n_policyPattern :: "string option"
  n_policyRuleId :: "string option"
  n_usedGrant :: bool
  n_usedApproval :: bool
  n_argsPreview :: json
  n_resultPreview :: "json option"
  n_error :: "string option"
  n_at :: int

text \<open>
  The bot's fields that the modelled code reads or writes.  An empty \<open>adminChatId\<close> is the
  unpaired bot (the source tests \<open>!this.adminChatId\<close>); \<open>noticeFlushTimer\<close> says whether
  a flush is scheduled.
\<close>

record TelegramBot =
  adminChatId :: string
  pairingCode :: string
  noticeQueue :: "ExecutionNotice list"
  noticeFlushTimer :: bool

definition enqueueExecutionNotice :: "int \<Rightarrow> ExecutionNotice \<Rightarrow> TelegramBot \<Rightarrow> TelegramBot" where
  "enqueueExecutionNotice now notice b =
     (if adminChatId b = [] then b
      else b\<lparr> noticeQueue := noticeQueue b @ [notice\<lparr> n_at := now \<rparr>],
              noticeFlushTimer := True \<rparr>)"

text \<open>
  \<open>isAdmin(ctx)\<close>; \<open>chatId\<close> is \<open>ctx.chat?.id?.toString()\<close>, \<open>None\<close> when the update has
  no chat.  (The replies it sends are not modelled.)
\<close>

definition isAdmin :: "TelegramBot \<Rightarrow> string option \<Rightarrow> bool" where
  "isAdmin b chatId =
     (if adminChatId b = [] then False
      else if chatId \<noteq> Some (adminChatId b) then False
      else True)"

text \<open>\<open>String.prototype.trim\<close>, on the white space among the 8-bit characters.\<close>

definition isWhiteSpace :: "char \<Rightarrow> bool" where
  "isWhiteSpace c = (c \<in> set [CHR 0x09, CHR 0x0A, CHR 0x0B, CHR 0x0C, CHR 0x0D, CHR 0x20, CHR 0xA0])"

definition trim :: "string \<Rightarrow> string" where
  "trim s = rev (dropWhile isWhiteSpace (rev (dropWhile isWhiteSpace s)))"

section \<open>The environment and the state\<close>

text \<open>
  What the code reads from outside: the clock, the id generator, the connected backends
  (\<open>clientManager.getClient\<close>; a backend maps a tool name and arguments to an error
  message or a reply), the Telegram transport (\<open>bot.telegram.sendMessage\<close>, by chat id:
  an error message or the id of the message sent), the rendering of a time by
  \<open>toISOString\<close>, and the regular-expression engine's case table.  One operation reads
  one clock value.
\<close>

record env =
  clock :: int
  uuidv4 :: string
  getClient :: "string \<Rightarrow> (string \<Rightarrow> json \<Rightarrow> string + json) option"
  sendMessage :: "string \<Rightarrow> string + int"
  toISOString :: "int \<Rightarrow> string"
  canon :: "char \<Rightarrow> char"

text \<open>
  The state the operations change: the collection files, the audit stream, the bot, and
  the log of calls that reached a backend (backend name, tool name, arguments).
\<close>

record world =
  tasksFile :: "TaskRow list jsonFile"
  grantsFile :: "GrantRow list jsonFile"
  rulesFile :: "PolicyRuleRow list jsonFile"
  adminFile :: "string option jsonFile"
  auditLog :: "AuditRow list"
  telegramBot :: TelegramBot
  backendCalls :: "(string \<times> string \<times> json) list"

section \<open>Pairing (the /pair command of src/telegram/bot.ts)\<close>

text \<open>
  The handler of \<open>/pair\<close>: \<open>chatId\<close> as in \<open>isAdmin\<close>, \<open>text\<close> the message text, of which
  \<open>text.split(' ').slice(1).join(' ').trim()\<close> is the code presented.  The result is the
  reply sent and the new state.  \<open>AdminStore.setAdminChatId\<close> writes the document
  \<open>{ adminChatId }\<close>.
\<close>

definition commandArgument :: "string \<Rightarrow> string" where
  "commandArgument text = trim (join (drop 1 (splitString text '' '')) '' '')"

definition pairCommand :: "string option \<Rightarrow> string \<Rightarrow> world \<Rightarrow> string \<times> world" where
  "pairCommand chatId text w =
     (let code = commandArgument text in
      if pairingCode (telegramBot w) = [] then (''Pairing is disabled (PAIRING_CODE not set on server).'', w)
      else if code = [] then (''Usage: /pair <PAIRING_CODE>'', w)
      else if code \<noteq> pairingCode (telegramBot w) then (''Invalid pairing code.'', w)
      else (case chatId of
              None \<Rightarrow> (''Could not read chat id.'', w)
            | Some c \<Rightarrow>
                (if c = [] then (''Could not read chat id.'', w)
                 else (''Paired! This chat is now the admin chat for approvals.'',
                       w\<lparr> telegramBot := (telegramBot w)\<lparr> adminChatId := c \<rparr>,
                          adminFile := writeJsonFileAtomic (adminFile w) (Some c) \<rparr>))))"

section \<open>The router (src/mcp/router.ts)\<close>

definition dquote :: char where
  "dquote = CHR 0x22"

definition parseNamespace :: "string \<Rightarrow> string + string \<times> string" where
  "parseNamespace namespacedName =
     (let parts = splitString namespacedName ''/'' in
      if length parts < 2
      then Inl (''Invalid namespaced tool name: '' @ namespacedName @ ''. Expected format: ''
                 @ [dquote] @ ''mcp_name/tool_name'' @ [dquote])
      else Inr (hd parts, join (tl parts) ''/''))"

definition Router_callTool :: "env \<Rightarrow> string \<Rightarrow> json \<Rightarrow> world \<Rightarrow> (string + json) \<times> world" where
  "Router_callTool e namespacedName args w =
     (case parseNamespace namespacedName of
        Inl err \<Rightarrow> (Inl err, w)
      | Inr (mcpName, toolName) \<Rightarrow>
          (case getClient e mcpName of
             None \<Rightarrow> (Inl (''MCP server '' @ [dquote] @ mcpName @ [dquote] @ '' is not connected''), w)
           | Some client \<Rightarrow>
               (client toolName args,
                w\<lparr> backendCalls := backendCalls w @ [(mcpName, toolName, args)] \<rparr>)))"

section \<open>Approval requests (src/telegram/bot.ts, src/middleware/approval.ts)\<close>

text \<open>
  \<open>TelegramBot.sendApprovalRequest\<close>: throws when the bot is unpaired or the transport
  fails; otherwise records the message id in the task.  (The text of the message is not
  modelled.)
\<close>

definition sendApprovalRequest ::
  "env \<Rightarrow> string \<Rightarrow> string \<Rightarrow> json \<Rightarrow> world \<Rightarrow> (string + unit) \<times> world" where
  "sendApprovalRequest e taskId toolName args w =
     (if adminChatId (telegramBot w) = []
      then (Inl ''Telegram bot not paired (adminChatId is not set)'', w)
      else (case sendMessage e (adminChatId (telegramBot w)) of
              Inl err \<Rightarrow> (Inl err, w)
            | Inr messageId \<Rightarrow>
                (Inr (), w\<lparr> tasksFile := TasksDB_setTelegramMessageId taskId messageId (tasksFile w) \<rparr>)))"

text \<open>\<open>ApprovalGate.requestApproval\<close>: the result is the task id.\<close>

definition requestApproval ::
  "env \<Rightarrow> string \<Rightarrow> json \<Rightarrow> json \<Rightarrow> PolicyAction \<Rightarrow> world \<Rightarrow> string \<times> world" where
  "requestApproval e toolName realArgs originalArgs policyAction w =
     (let created = TasksDB_create (uuidv4 e) (clock e) toolName realArgs originalArgs
                      policyAction (tasksFile w);
          task = fst created;
          w1 = w\<lparr> tasksFile := snd created \<rparr>;
          sent = sendApprovalRequest e (t_id task) toolName originalArgs w1
      in case fst sent of
           Inl err \<Rightarrow>
             (t_id task,
              (snd sent)\<lparr> tasksFile :=
                 TasksDB_setError (clock e) (t_id task)
                   ''Failed to send Telegram approval request'' (tasksFile (snd sent)) \<rparr>)
         | Inr u \<Rightarrow> (t_id task, snd sent))"

section \<open>The request pipeline (src/gateway/mcp-handler.ts)\<close>

text \<open>
  What a handler returns: \<open>Raw v\<close> is the value \<open>v\<close> returned as it is; \<open>TextContent v\<close> is
  the envelope \<open>{ content: [{ type: 'text', text: JSON.stringify(v, null, 2) }] }\<close>.  A
  thrown \<open>Error\<close> is \<open>Inl\<close> of its message.
\<close>

datatype reply = Raw json | TextContent json

text \<open>
  The handler's collaborators: the anonymizer's rules, the policy engine, and whether the
  optional \<open>telegramBot\<close> was given to the constructor.
\<close>

record MCPHandler =
  replacements :: "Replacement list"
  policyEngine :: PolicyEngine
  hasTelegramBot :: bool

text \<open>\<open>handleRequest\<close> turns a thrown error into a JSON-RPC error of code -32603.\<close>

datatype JSONRPCResponse = RpcResult reply | RpcError int string

definition jsonRpcResponse :: "string + reply \<Rightarrow> JSONRPCResponse" where
  "jsonRpcResponse outcome =
     (case outcome of Inl message \<Rightarrow> RpcError (- 32603) message | Inr r \<Rightarrow> RpcResult r)"

definition deniedMessage :: "string \<Rightarrow> string" where
  "deniedMessage name = ''Tool '' @ name @ '' is denied by policy''"

definition pendingReply :: "string \<Rightarrow> string \<Rightarrow> json" where
  "pendingReply taskId name =
     JObj [(''status'', JStr ''pending-approval''),
           (''taskId'', JStr taskId),
           (''toolName'', JStr name),
           (''message'', JStr (''Approval requested via Telegram. Use portero/check_task with task_id=''
              @ [dquote] @ taskId @ [dquote] @ '' to check the result.''))]"

text \<open>The \<open>catch\<close> block of \<open>executeToolPipeline\<close>.\<close>

definition pipelineCatch ::
  "env \<Rightarrow> MCPHandler \<Rightarrow> string \<Rightarrow> json \<Rightarrow> PolicyDecision \<Rightarrow> bool \<Rightarrow> string \<Rightarrow> world
     \<Rightarrow> (string + reply) \<times> world" where
  "pipelineCatch e h name args policy hasGrant errorMessage w =
     (let w1 = w\<lparr> auditLog :=
                  AuditDB_log (clock e) name args None (Some (action policy)) None
                    (Some errorMessage) (auditLog w) \<rparr>;
          notice = \<lparr> n_status = (if action policy = Deny then NoticeBlocked else NoticeError),
                     n_toolName = name, n_policyAction = action policy,
                     n_policySource = source policy, n_policyPattern = pattern policy,
                     n_policyRuleId = ruleId policy, n_usedGrant = hasGrant,
                     n_usedApproval = False, n_argsPreview = args, n_resultPreview = None,
                     n_error = Some errorMessage, n_at = clock e \<rparr>;
          w2 = (if hasTelegramBot h
                then w1\<lparr> telegramBot := enqueueExecutionNotice (clock e) notice (telegramBot w1) \<rparr>
                else w1)
      in (Inl errorMessage, w2))"

definition executeToolPipeline ::
  "env \<Rightarrow> MCPHandler \<Rightarrow> string \<Rightarrow> json \<Rightarrow> world \<Rightarrow> (string + reply) \<times> world" where
  "executeToolPipeline e h name args w =
     (let realArgs = anonymizeRequest (canon e) (replacements h) args;
          policy = checkPolicyDetailed (policyEngine h) (rulesFile w) name;
          hasGrant = hasActiveGrant (clock e) (grantsFile w) name
      in if action policy = Deny
         then pipelineCatch e h name args policy hasGrant (deniedMessage name) w
         else if action policy = RequireApproval \<and> \<not> hasGrant
         then (let requested = requestApproval e name realArgs args (action policy) w
               in (Inr (TextContent (pendingReply (fst requested) name)), snd requested))
         else (let routed = Router_callTool e name realArgs w in
               case fst routed of
                 Inl err \<Rightarrow> pipelineCatch e h name args policy hasGrant err (snd routed)
               | Inr res \<Rightarrow>
                   (let fakeResult = deanonymizeResponse (canon e) (replacements h) res;
                        w1 = (snd routed)\<lparr> auditLog :=
                               AuditDB_log (clock e) name args (Some fakeResult)
                                 (Some (action policy)) None None (auditLog (snd routed)) \<rparr>;
                        notice = \<lparr> n_status = NoticeOk, n_toolName = name,
                                   n_policyAction = action policy,
                                   n_policySource = source policy,
                                   n_policyPattern = pattern policy,
                                   n_policyRuleId = ruleId policy, n_usedGrant = hasGrant,
                                   n_usedApproval = False, n_argsPreview = args,
                                   n_resultPreview = Some fakeResult, n_error = None,
                                   n_at = clock e \<rparr>;
                        w2 = (if hasTelegramBot h
                              then w1\<lparr> telegramBot := enqueueExecutionNotice (clock e) notice (telegramBot w1) \<rparr>
                              else w1)
                    in (Inr (Raw fakeResult), w2))))"

section \<open>The virtual tool portero/check-task (src/gateway/mcp-handler.ts)\<close>




section \<open>Decisions and the executor (src/telegram/bot.ts)\<close>

text \<open>
  \<open>executeApprovedTask\<close>: the task is moved to \<open>executing\<close>, dispatched with its stored
  arguments, and finished by \<open>setResult\<close> or \<open>setError\<close>, with one audit record.  (The
  closing message to the admin chat is not modelled; its failure is ignored by the
  source.)
\<close>

definition executeApprovedTask :: "env \<Rightarrow> Replacement list \<Rightarrow> string \<Rightarrow> world \<Rightarrow> world" where
  "executeApprovedTask e anonymizer taskId w =
     (case TasksDB_get taskId (tasksFile w) of
        None \<Rightarrow> w
      | Some task \<Rightarrow>
          (let w1 = w\<lparr> tasksFile := TasksDB_updateStatus (clock e) taskId Executing (tasksFile w) \<rparr>;
               routed = Router_callTool e (t_toolName task) (t_args task) w1;
               w2 = snd routed
           in case fst routed of
                Inr res \<Rightarrow>
                  (let fakeResult = deanonymizeResponse (canon e) anonymizer res
                   in w2\<lparr> tasksFile := TasksDB_setResult (clock e) taskId fakeResult (tasksFile w2),
                          auditLog := AuditDB_log (clock e) (t_toolName task) (t_originalArgs task)
                                        (Some fakeResult) (Some (t_policyAction task))
                                        (Some ''approved'') None (auditLog w2) \<rparr>)
              | Inl errorMessage \<Rightarrow>
                  w2\<lparr> tasksFile := TasksDB_setError (clock e) taskId errorMessage (tasksFile w2),
                       auditLog := AuditDB_log (clock e) (t_toolName task) (t_originalArgs task)
                                     None (Some (t_policyAction task))
                                     (Some ''approved'') (Some errorMessage) (auditLog w2) \<rparr>))"

text \<open>
  The \<open>callback_query\<close> handler, for the data \<open><action>:<taskId>\<close> of an approval
  message.  Every branch tests \<open>task.status === 'pending-approval'\<close> before it writes.
  The result is the new state and, for an approval, the id of the task handed to
  \<open>executeApprovedTask\<close> (which the source starts without awaiting it).  The branch for
  \<open>change_policy:\<close> data upserts a dynamic rule.  (Answers and replies to the chat are
  not modelled.)
\<close>

definition callbackQuery ::
  "env \<Rightarrow> string option \<Rightarrow> string \<Rightarrow> world \<Rightarrow> world \<times> string option" where
  "callbackQuery e chatId cbData w =
     (if \<not> isAdmin (telegramBot w) chatId then (w, None)
      else if cbData = [] then (w, None)
      else if startsWith cbData ''change_policy:''
      then (let parts = splitString cbData '':'';
                act = (if length parts > 1 then parts ! 1 else []);
                toolName = join (drop 2 parts) '':''
            in if toolName \<noteq> [] \<and> act = ''require-approval''
               then (w\<lparr> rulesFile := PolicyRulesDB_upsert (uuidv4 e) (clock e) toolName
                                        RequireApproval (rulesFile w) \<rparr>, None)
               else if toolName \<noteq> [] \<and> act = ''deny''
               then (w\<lparr> rulesFile := PolicyRulesDB_upsert (uuidv4 e) (clock e) toolName
                                        Deny (rulesFile w) \<rparr>, None)
               else (w, None))
      else (let colonIdx = length (takeWhile (\<lambda>c. c \<noteq> CHR '':'') cbData);
                found = (0 < colonIdx \<and> colonIdx < length cbData);
                act = (if found then take colonIdx cbData else cbData);
                taskId = (if found then drop (colonIdx + 1) cbData else [])
            in case (if taskId = [] then None else TasksDB_get taskId (tasksFile w)) of
                 None \<Rightarrow> (w, None)
               | Some task \<Rightarrow>
                   (let pending = (t_status task = PendingApproval);
                        approved = w\<lparr> tasksFile :=
                                     TasksDB_updateStatus (clock e) taskId ApprovedQueued (tasksFile w) \<rparr>;
                        denied = w\<lparr> tasksFile :=
                                   TasksDB_updateStatus (clock e) taskId Denied (tasksFile w) \<rparr>
                    in if act = ''approve''
                       then (if pending then (approved, Some taskId) else (w, None))
                       else if act = ''deny''
                       then (if pending then (denied, None) else (w, None))
                       else if act = ''approve_grant10m''
                       then (if pending
                             then (approved\<lparr> grantsFile :=
                                      GrantsDB_create (uuidv4 e) (clock e) (t_toolName task)
                                        (10 * 60) (grantsFile w) \<rparr>, Some taskId)
                             else (w, None))
                       else if act = ''approve_grant1h''
                       then (if pending
                             then (approved\<lparr> grantsFile :=
                                      GrantsDB_create (uuidv4 e) (clock e) (t_toolName task)
                                        (60 * 60) (grantsFile w) \<rparr>, Some taskId)
                             else (w, None))
                       else if act = ''approve_allow_tool''
                       then (if pending
                             then (approved\<lparr> rulesFile :=
                                      PolicyRulesDB_upsert (uuidv4 e) (clock e) (t_toolName task)
                                        Allow (rulesFile w) \<rparr>, Some taskId)
                             else (w, None))
                       else if act = ''deny_always_tool''
                       then (if pending
                             then (denied\<lparr> rulesFile :=
                                      PolicyRulesDB_upsert (uuidv4 e) (clock e) (t_toolName task)
                                        Deny (rulesFile w) \<rparr>, None)
                             else (w, None))
                       else (w, None))))"

section \<open>The admin store and the legacy approvals store (src/telegram/admin-store.ts, src/db/approvals.ts)\<close>


datatype ApprovalStatus = ApprovalPending | ApprovalApproved | ApprovalDenied




section \<open>Example data\<close>

text \<open>Concrete states and environments on which the theorems below are instantiated.\<close>

definition exampleTask :: TaskRow where
  "exampleTask =
     \<lparr> t_id = ''t1'', t_toolName = ''github/create_pull_request'',
       t_args = JObj [(''title'', JStr ''x'')], t_originalArgs = JObj [(''title'', JStr ''x'')],
       t_status = PendingApproval, t_result = None, t_error = None,
       t_policyAction = RequireApproval, t_telegramMessageId = None, t_createdAt = 1000,
       t_approvedAt = None, t_executedAt = None, t_checkedAt = None \<rparr>"

definition exampleBot :: TelegramBot where
  "exampleBot =
     \<lparr> adminChatId = ''111'', pairingCode = ''s3cret'', noticeQueue = [],
       noticeFlushTimer = False \<rparr>"

definition exampleWorld :: world where
  "exampleWorld =
     \<lparr> tasksFile = Document [], grantsFile = Document [], rulesFile = Document [],
       adminFile = Document (Some ''111''), auditLog = [], telegramBot = exampleBot,
       backendCalls = [] \<rparr>"

text \<open>A state with one grant for the tools of the backend \<open>echo\<close>, expiring at 6000.\<close>

definition exampleGrant :: GrantRow where
  "exampleGrant =
     \<lparr> g_id = ''g1'', g_pattern = ''echo/*'', g_createdAt = 0, g_expiresAt = Some 6000 \<rparr>"

definition grantedWorld :: world where
  "grantedWorld = exampleWorld\<lparr> grantsFile := Document [exampleGrant] \<rparr>"

text \<open>A one-way rule for an API key, with the given \<open>responseReplacement\<close>.\<close>

definition oneWayRule :: "string option \<Rightarrow> Replacement" where
  "oneWayRule rr =
     \<lparr> fake = ''FAKE_KEY'', real = ''sk_secret'', bidirectional = False,
       caseSensitive = None, responseReplacement = rr \<rparr>"

text \<open>A backend \<open>echo\<close> that returns its arguments; a transport that always fails.\<close>

definition exampleEnv :: env where
  "exampleEnv =
     \<lparr> clock = 5000, uuidv4 = ''u1'',
       getClient = (\<lambda>name. if name = ''echo'' then Some (\<lambda>tool args. Inr args) else None),
       sendMessage = (\<lambda>chat. Inl ''ETIMEDOUT''),
       toISOString = (\<lambda>t. ''T''),
       canon = (\<lambda>c. c) \<rparr>"

definition exampleHandler :: "PolicyAction \<Rightarrow> MCPHandler" where
  "exampleHandler dflt =
     \<lparr> replacements = [],
       policyEngine = \<lparr> policies = [], defaultPolicy = dflt, hasPolicyRulesDB = True \<rparr>,
       hasTelegramBot = True \<rparr>"

section \<open>Lemmas on the stores and the router\<close>

lemma find_updateFirst:
  "(\<And>x. P x \<Longrightarrow> P (f x)) \<Longrightarrow> find P (updateFirst P f xs) = map_option f (find P xs)"
  by (induction xs) auto

lemma TasksDB_get_updateStatus:
  "TasksDB_get tid (TasksDB_updateStatus now tid status f) =
     map_option (\<lambda>r. (let r1 = r\<lparr> t_status := status \<rparr>;
                          r2 = (if status = ApprovedQueued then r1\<lparr> t_approvedAt := Some now \<rparr> else r1)
                      in if status = Executing then r2\<lparr> t_executedAt := Some now \<rparr> else r2))
       (TasksDB_get tid f)"
  by (cases "find (\<lambda>t. t_id t = tid) (readJsonFile f [])")
     (simp_all add: TasksDB_get_def TasksDB_updateStatus_def Let_def writeJsonFileAtomic_def
        readJsonFile_def find_updateFirst)

lemma TasksDB_get_setResult:
  "TasksDB_get tid (TasksDB_setResult now tid res f) =
     map_option (\<lambda>r. r\<lparr> t_status := Completed, t_result := Some res, t_executedAt := Some now \<rparr>)
       (TasksDB_get tid f)"
  by (cases "find (\<lambda>t. t_id t = tid) (readJsonFile f [])")
     (simp_all add: TasksDB_get_def TasksDB_setResult_def Let_def writeJsonFileAtomic_def
        readJsonFile_def find_updateFirst)

lemma TasksDB_get_setError:
  "TasksDB_get tid (TasksDB_setError now tid err f) =
     map_option (\<lambda>r. r\<lparr> t_status := Error, t_error := Some err, t_executedAt := Some now \<rparr>)
       (TasksDB_get tid f)"
  by (cases "find (\<lambda>t. t_id t = tid) (readJsonFile f [])")
     (simp_all add: TasksDB_get_def TasksDB_setError_def Let_def writeJsonFileAtomic_def
        readJsonFile_def find_updateFirst)



lemma Router_callTool_tasksFile:
  "tasksFile (snd (Router_callTool e name args w)) = tasksFile w"
  by (simp add: Router_callTool_def split: sum.splits option.splits prod.splits)

lemma Router_callTool_fst:
  "fst (Router_callTool e name args w) = fst (Router_callTool e name args w')"
  by (simp add: Router_callTool_def split: sum.splits option.splits prod.splits)


section \<open>The pattern matcher on concrete inputs\<close>

text \<open>
  A bare \<open>*\<close> matches every tool name, and the examples of the specification evaluate as
  it says.
\<close>

theorem matchesPattern_star_and_examples:
  "matchesPattern toolName ''*''
   \<and> matchesPattern ''a/b'' ''a/*'' = True
   \<and> matchesPattern ''a/b/c'' ''a/*'' = False
   \<and> matchesPattern ''a/b/c'' ''a/**'' = True
   \<and> matchesPattern ''a.b'' ''a.b'' = True
   \<and> matchesPattern ''axb'' ''a.b'' = False
   \<and> matchesPattern ''xa/b'' ''a/*'' = False"
proof -
  have "matchesPattern toolName ''*''"
    by (simp add: matchesPattern_def)
  moreover have "matchesPattern ''a/b'' ''a/*'' = True
   \<and> matchesPattern ''a/b/c'' ''a/*'' = False
   \<and> matchesPattern ''a/b/c'' ''a/**'' = True
   \<and> matchesPattern ''a.b'' ''a.b'' = True
   \<and> matchesPattern ''axb'' ''a.b'' = False
   \<and> matchesPattern ''xa/b'' ''a/*'' = False"
    by code_simp
  ultimately show ?thesis by simp
qed

text \<open>
  C3 states that every name matches itself and that \<open>**\<close> matches any characters.  The
  code departs from both.  The name \<open>__DOUBLE_WILDCARD**\<close> does not match itself: its two
  stars become the placeholder, the placeholder found by the last \<open>replace\<close> starts two
  characters too early, and the expression is \<open>^.*DOUBLE_WILDCARD__$\<close>.  The name
  \<open>a/b\<close>, line feed, \<open>c\<close> does not match \<open>a/**\<close>: the dot of \<open>.*\<close> matches no line
  terminator.  And the pattern \<open>__DOUBLE_WILDCARD__\<close>, which holds no star, matches every
  name without a line terminator.
\<close>

theorem matchesPattern_divergence:
  "matchesPattern ''__DOUBLE_WILDCARD**'' ''__DOUBLE_WILDCARD**'' = False
   \<and> regexPattern ''__DOUBLE_WILDCARD**'' = ''.*DOUBLE_WILDCARD__''
   \<and> matchesPattern (''a/b'' @ [CHR 0x0A] @ ''c'') ''a/**'' = False
   \<and> matchesPattern ''anything/at/all'' ''__DOUBLE_WILDCARD__'' = True"
  by code_simp

section \<open>The pattern matcher and the glob semantics\<close>

lemma star_not_special [simp]: "\<not> regexSpecial (CHR ''*'')"
  by (simp add: regexSpecial_def backslash_def)

text \<open>
  The four \<open>replace\<close> calls, followed token by token.  The second call turns two stars
  into the placeholder (\<open>stage2\<close>), the third turns the stars left into \<open>[^/]*\<close>
  (\<open>stage3_tokens\<close>), the fourth turns the placeholder into \<open>.*\<close> (\<open>stage4\<close>); for the
  fourth to find only the placeholders the second call wrote, the pattern must not hold
  the start \<open>__D\<close> of the placeholder itself.
\<close>

lemma stage2:
  "replaceAll ''**'' DOUBLE_WILDCARD (escapeSpecial p) = concat (map render2 (globTokens p))"
proof (induction p rule: globTokens.induct)
  case 1
  then show ?case by (simp add: escapeSpecial_def)
next
  case (2 c)
  then show ?case by (simp add: escapeSpecial_def startsWith_def backslash_def)
next
  case (3 c d cs)
  show ?case
  proof (cases "c = CHR ''*''")
    case True
    note c = this
    show ?thesis
    proof (cases "d = CHR ''*''")
      case True
      with c 3 show ?thesis
        by (simp add: escapeSpecial_def startsWith_def)
    next
      case False
      have "hd (escapeSpecial (d # cs)) \<noteq> CHR ''*''"
        using False by (simp add: escapeSpecial_def backslash_def)
      moreover have "escapeSpecial (d # cs) \<noteq> []"
        by (simp add: escapeSpecial_def)
      ultimately have "\<not> startsWith (CHR ''*'' # escapeSpecial (d # cs)) ''**''"
        by (cases "escapeSpecial (d # cs)") (auto simp: startsWith_def)
      moreover have "escapeSpecial (c # d # cs) = CHR ''*'' # escapeSpecial (d # cs)"
        using c by (simp add: escapeSpecial_def)
      ultimately show ?thesis
        using c False 3 by simp
    qed
  next
    case False
    have e: "escapeSpecial (c # d # cs) = render2 (GChar c) @ escapeSpecial (d # cs)"
      by (simp add: escapeSpecial_def)
    show ?thesis
    proof (cases "regexSpecial c")
      case True
      then show ?thesis
        using False 3 unfolding e
        by (simp add: startsWith_def backslash_def)
    next
      case False
      then show ?thesis
        using \<open>c \<noteq> CHR ''*''\<close> 3 unfolding e
        by (simp add: startsWith_def)
    qed
  qed
qed


lemma replaceAll_skip:
  "pat \<noteq> [] \<Longrightarrow> hd pat \<notin> set pre \<Longrightarrow>
   replaceAll pat rep (pre @ rest) = pre @ replaceAll pat rep rest"
proof (induction pre)
  case Nil
  then show ?case by simp
next
  case (Cons c pre)
  then have "\<not> startsWith (c # pre @ rest) pat"
    by (cases pat) (auto simp: startsWith_def)
  with Cons show ?case by simp
qed

lemma replaceAll_hit:
  "pat \<noteq> [] \<Longrightarrow> replaceAll pat rep (pat @ rest) = rep @ replaceAll pat rep rest"
  by (cases pat) (auto simp: startsWith_def)

lemma globTokens_no_star: "GChar (CHR ''*'') \<notin> set (globTokens p)"
  by (induction p rule: globTokens.induct) auto

lemma stage3_tokens:
  "GChar (CHR ''*'') \<notin> set toks \<Longrightarrow>
   replaceAll ''*'' ''[^/]*'' (concat (map render2 toks)) = concat (map render3 toks)"
proof (induction toks)
  case Nil
  then show ?case by simp
next
  case (Cons t toks)
  show ?case
  proof (cases t)
    case (GChar c)
    with Cons.prems have "c \<noteq> CHR ''*''" by auto
    then have "hd ''*'' \<notin> set (render2 (GChar c))"
      by (simp add: backslash_def)
    then have "replaceAll ''*'' ''[^/]*'' (render2 (GChar c) @ concat (map render2 toks))
                 = render2 (GChar c) @ replaceAll ''*'' ''[^/]*'' (concat (map render2 toks))"
      by (intro replaceAll_skip) simp_all
    with Cons GChar show ?thesis by simp
  next
    case GStar
    have "replaceAll ''*'' ''[^/]*'' (''*'' @ concat (map render2 toks))
            = ''[^/]*'' @ replaceAll ''*'' ''[^/]*'' (concat (map render2 toks))"
      by (intro replaceAll_hit) simp
    with Cons GStar show ?thesis by simp
  next
    case GStarStar
    have "hd ''*'' \<notin> set DOUBLE_WILDCARD"
      by (simp add: DOUBLE_WILDCARD_def)
    then have "replaceAll ''*'' ''[^/]*'' (DOUBLE_WILDCARD @ concat (map render2 toks))
                 = DOUBLE_WILDCARD @ replaceAll ''*'' ''[^/]*'' (concat (map render2 toks))"
      by (intro replaceAll_skip) simp_all
    with Cons GStarStar show ?thesis by simp
  qed
qed

lemma R3_simps:
  "R3 [] = []"
  "R3 [c] = (if c = CHR ''*'' then ''[^/]*'' else if regexSpecial c then [backslash, c] else [c])"
  "R3 (c # d # cs) =
     (if c = CHR ''*'' \<and> d = CHR ''*'' then DOUBLE_WILDCARD @ R3 cs
      else if c = CHR ''*'' then ''[^/]*'' @ R3 (d # cs)
      else if regexSpecial c then [backslash, c] @ R3 (d # cs)
      else c # R3 (d # cs))"
  by (simp_all add: R3_def)

lemma R4_simps:
  "R4 [] = []"
  "R4 [c] = (if c = CHR ''*'' then ''[^/]*'' else if regexSpecial c then [backslash, c] else [c])"
  "R4 (c # d # cs) =
     (if c = CHR ''*'' \<and> d = CHR ''*'' then ''.*'' @ R4 cs
      else if c = CHR ''*'' then ''[^/]*'' @ R4 (d # cs)
      else if regexSpecial c then [backslash, c] @ R4 (d # cs)
      else c # R4 (d # cs))"
  by (simp_all add: R4_def)

lemma R3_head:
  "R3 (c # cs) \<noteq> [] \<and>
   hd (R3 (c # cs)) =
     (if c = CHR ''*'' then (if take 1 cs = ''*'' then CHR ''_'' else CHR ''['')
      else if regexSpecial c then backslash else c)"
  by (cases cs) (auto simp: R3_simps DOUBLE_WILDCARD_def)

lemma length_DOUBLE_WILDCARD: "length DOUBLE_WILDCARD = 19"
  by (simp add: DOUBLE_WILDCARD_def)

lemma startsWith_placeholder_take3:
  "startsWith s DOUBLE_WILDCARD \<Longrightarrow> take 3 s = ''__D''"
proof -
  assume "startsWith s DOUBLE_WILDCARD"
  then have "take (length DOUBLE_WILDCARD) s = DOUBLE_WILDCARD"
    by (simp only: startsWith_def)
  then have "take 3 (take (length DOUBLE_WILDCARD) s) = take 3 DOUBLE_WILDCARD"
    by (simp only:)
  moreover have "take 3 (take (length DOUBLE_WILDCARD) s) = take 3 s"
    by (simp only: take_take length_DOUBLE_WILDCARD) simp
  moreover have "take 3 DOUBLE_WILDCARD = ''__D''"
    by (simp add: DOUBLE_WILDCARD_def)
  ultimately show ?thesis by simp
qed

lemma contains_Cons: "\<not> contains (c # cs) sub \<Longrightarrow> \<not> contains cs sub"
  by simp

lemma stage4:
  "\<not> contains p ''__D'' \<Longrightarrow> replaceAll DOUBLE_WILDCARD ''.*'' (R3 p) = R4 p"
proof (induction p rule: globTokens.induct)
  case 1
  then show ?case by (simp add: R3_simps R4_simps)
next
  case (2 c)
  have "\<not> startsWith s DOUBLE_WILDCARD" if "length s < 19" for s
    using that by (auto simp: startsWith_def DOUBLE_WILDCARD_def)
  then show ?case
    by (simp add: R3_simps R4_simps)
next
  case (3 c d cs)
  have nz: "DOUBLE_WILDCARD \<noteq> []" by (simp add: DOUBLE_WILDCARD_def)
  have hdp: "hd DOUBLE_WILDCARD = CHR ''_''" by (simp add: DOUBLE_WILDCARD_def)
  from "3.prems" have n1: "\<not> contains (d # cs) ''__D''" and n2: "\<not> contains cs ''__D''"
    by simp_all
  show ?case
  proof (cases "c = CHR ''*''")
    case True
    note c = this
    show ?thesis
    proof (cases "d = CHR ''*''")
      case True
      with c "3.IH"(1) n2 show ?thesis
        by (simp add: R3_simps R4_simps replaceAll_hit [OF nz])
    next
      case False
      have "hd DOUBLE_WILDCARD \<notin> set ''[^/]*''" by (simp add: hdp)
      from replaceAll_skip [OF nz this]
      show ?thesis using c False "3.IH"(2) n1
        by (simp add: R3_simps R4_simps)
    qed
  next
    case False
    note c = this
    show ?thesis
    proof (cases "regexSpecial c")
      case True
      then have "hd DOUBLE_WILDCARD \<notin> set [backslash, c]"
        by (auto simp: hdp backslash_def regexSpecial_def)
      from replaceAll_skip [OF nz this]
      show ?thesis using c True "3.IH"(3) n1
        by (simp add: R3_simps R4_simps)
    next
      case False
      note s = this
      have "\<not> startsWith (c # R3 (d # cs)) DOUBLE_WILDCARD"
      proof
        assume "startsWith (c # R3 (d # cs)) DOUBLE_WILDCARD"
        then have t3: "take 3 (c # R3 (d # cs)) = ''__D''"
          by (rule startsWith_placeholder_take3)
        then have cu: "c = CHR ''_''" and t2: "take 2 (R3 (d # cs)) = ''_D''"
          by (simp_all add: numeral_3_eq_3 numeral_2_eq_2)
        from R3_head [of d cs] t2 have hd_d: "hd (R3 (d # cs)) = CHR ''_''"
          by (cases "R3 (d # cs)") (auto simp: numeral_2_eq_2)
        show False
        proof (cases "d = CHR ''*''")
          case True
          then show ?thesis
            using t2 by (cases cs) (auto simp: R3_simps DOUBLE_WILDCARD_def numeral_2_eq_2 split: if_splits)
        next
          case False
          with hd_d R3_head [of d cs] have du: "d = CHR ''_''"
            by (auto simp: backslash_def split: if_splits)
          show ?thesis
          proof (cases cs)
            case Nil
            with du t2 show ?thesis by (simp add: R3_simps regexSpecial_def backslash_def numeral_2_eq_2)
          next
            case (Cons x xs)
            with du t2 have "hd (R3 (x # xs)) = CHR ''D''"
              using R3_head [of x xs]
              by (cases "R3 (x # xs)") (auto simp: R3_simps regexSpecial_def backslash_def numeral_2_eq_2)
            with R3_head [of x xs] have "x = CHR ''D''"
              by (auto simp: backslash_def split: if_splits)
            with cu du Cons "3.prems" show ?thesis
              by (simp add: startsWith_def)
          qed
        qed
      qed
      then show ?thesis using c s "3.IH"(3) n1
        by (simp add: R3_simps R4_simps)
    qed
  qed
qed


lemma compileRegex_plain:
  "\<not> regexSpecial c \<Longrightarrow> compileRegex (c # rest) = Lit c # compileRegex rest"
  by (cases rest) (auto simp: regexSpecial_def)

lemma compileRegex_escaped:
  "compileRegex (backslash # c # rest) = Lit c # compileRegex rest"
  by simp

lemma compileRegex_class:
  "compileRegex (''[^/]*'' @ rest) = NotSlashStar # compileRegex rest"
  by (simp add: backslash_def startsWith_def)

lemma compileRegex_dot:
  "compileRegex (''.*'' @ rest) = DotStar # compileRegex rest"
  by (simp add: backslash_def)

lemma compileRegex_Nil: "compileRegex [] = []"
  by simp

lemma stage5: "compileRegex (R4 p) = map toAtom (globTokens p)"
proof (induction p rule: globTokens.induct)
  case 1
  then show ?case by (simp add: R4_simps)
next
  case (2 c)
  show ?case
    using compileRegex_class [of "[]"] compileRegex_escaped [of c "[]"] compileRegex_plain [of c "[]"]
    by (simp add: R4_simps del: compileRegex.simps(3))
next
  case (3 c d cs)
  show ?case
    using 3 compileRegex_class [of "R4 (d # cs)"] compileRegex_dot [of "R4 cs"]
      compileRegex_escaped [of c "R4 (d # cs)"] compileRegex_plain [of c "R4 (d # cs)"]
    by (simp add: R4_simps del: compileRegex.simps(3))
qed

lemma regexTest_globMatch:
  "list_all (\<lambda>c. \<not> lineTerminator c) s \<Longrightarrow> regexTest (map toAtom gs) s = globMatch gs s"
  by (induction gs s rule: globMatch.induct) auto

lemma regexPattern_R4: "\<not> contains p ''__D'' \<Longrightarrow> regexPattern p = R4 p"
  using stage3_tokens [OF globTokens_no_star, of p] stage4 [of p]
  by (simp add: regexPattern_def stage2 R3_def)

text \<open>
  On patterns that nowhere hold \<open>__D\<close> and names without a line terminator, the code is
  the glob semantics of the specification: a bare \<open>*\<close> matches every name; otherwise
  \<open>*\<close> matches a run of characters without \<open>/\<close>, \<open>**\<close> any characters, every other
  character itself, and the pattern matches the whole name.
\<close>

theorem matchesPattern_glob:
  "\<not> contains pat ''__D'' \<Longrightarrow> list_all (\<lambda>c. \<not> lineTerminator c) toolName \<Longrightarrow>
   matchesPattern toolName pat = (pat = ''*'' \<or> globMatch (globTokens pat) toolName)"
  by (simp add: matchesPattern_def regexPattern_R4 stage5 regexTest_globMatch)

theorem matchesPattern_glob_witness:
  "\<not> contains ''github/**'' ''__D''
   \<and> list_all (\<lambda>c. \<not> lineTerminator c) ''github/repos/create''
   \<and> matchesPattern ''github/repos/create'' ''github/**''
   \<and> \<not> matchesPattern ''github/repos/create'' ''github/*''"
  using matchesPattern_glob [of "''github/**''" "''github/repos/create''"]
        matchesPattern_glob [of "''github/*''" "''github/repos/create''"]
  by (simp add: startsWith_def lineTerminator_def)

lemma globMatch_starstar_more: "globMatch gs s \<Longrightarrow> globMatch (GStarStar # gs) s"
  by (cases s) auto

lemma globMatch_self: "globMatch (globTokens n) n"
proof (induction n rule: globTokens.induct)
  case 1
  then show ?case by simp
next
  case (2 c)
  then show ?case by simp
next
  case (3 c d cs)
  show ?case
  proof (cases "c = CHR ''*'' \<and> d = CHR ''*''")
    case True
    with 3 have "globMatch (globTokens cs) cs" by simp
    then have "globMatch (GStarStar # globTokens cs) cs" by (rule globMatch_starstar_more)
    with True show ?thesis by simp
  next
    case False
    with 3 show ?thesis by auto
  qed
qed

text \<open>On such names, every name matches itself.\<close>

theorem matchesPattern_self:
  "\<not> contains n ''__D'' \<Longrightarrow> list_all (\<lambda>c. \<not> lineTerminator c) n \<Longrightarrow> matchesPattern n n"
  by (simp add: matchesPattern_def regexPattern_R4 stage5 regexTest_globMatch globMatch_self)

theorem matchesPattern_self_witness:
  "\<not> contains ''filesystem/read_file'' ''__D''
   \<and> list_all (\<lambda>c. \<not> lineTerminator c) ''filesystem/read_file''
   \<and> matchesPattern ''filesystem/read_file'' ''filesystem/read_file''"
  using matchesPattern_self [of "''filesystem/read_file''"]
  by (simp add: startsWith_def lineTerminator_def)

section \<open>The anonymizer on concrete inputs\<close>

text \<open>
  C7 states that a one-way rule rewrites \<open>real\<close> to \<open>responseReplacement\<close> whenever that
  is set, the empty string included.  The code writes \<open>responseReplacement || ...\<close>: a
  rule whose \<open>responseReplacement\<close> is the empty string rewrites the secret to the
  redaction token, as a rule with none does; a non-empty one is used as it is.
\<close>

theorem empty_responseReplacement_divergence:
  "deanonymizeResponse (\<lambda>c. c) [oneWayRule (Some [])] (JObj [(''key'', JStr ''id=sk_secret;'')])
     = JObj [(''key'', JStr ''id=***REDACTED***;'')]
   \<and> deanonymizeResponse (\<lambda>c. c) [oneWayRule (Some ''#'')] (JObj [(''key'', JStr ''id=sk_secret;'')])
     = JObj [(''key'', JStr ''id=#;'')]
   \<and> deanonymizeResponse (\<lambda>c. c) [oneWayRule None] (JObj [(''key'', JStr ''id=sk_secret;'')])
     = JObj [(''key'', JStr ''id=***REDACTED***;'')]"
  by code_simp

section \<open>Outbound rewriting in general\<close>

lemma splitFrom_not_Nil: "splitFrom sep piece s \<noteq> []"
  by (induction sep piece s rule: splitFrom.induct) auto

lemma join_Cons: "ps \<noteq> [] \<Longrightarrow> join (p # ps) glue = p @ glue @ join ps glue"
  by (cases ps) auto

lemma join_splitFrom:
  "sep \<noteq> [] \<Longrightarrow> join (splitFrom sep piece s) glue = piece @ replaceAll sep glue s"
proof (induction sep piece s rule: splitFrom.induct)
  case (1 sep piece)
  then show ?case by simp
next
  case (2 sep piece c cs)
  show ?case
  proof (cases "startsWith (c # cs) sep")
    case True
    with 2 show ?thesis
      by (simp add: join_Cons splitFrom_not_Nil)
  next
    case False
    with 2 show ?thesis by simp
  qed
qed

lemma join_split_replaceAll:
  "src \<noteq> [] \<Longrightarrow> join (splitString s src) tgt = replaceAll src tgt s"
  by (simp add: splitString_def join_splitFrom)

lemma foldl_setProperty_distinct:
  "distinct (map fst (acc @ kvs)) \<Longrightarrow>
   foldl (\<lambda>result kv. setProperty result (fst kv) (snd kv)) acc kvs = acc @ kvs"
proof (induction kvs arbitrary: acc)
  case Nil
  then show ?case by simp
next
  case (Cons kv kvs)
  have sp: "setProperty acc (fst kv) (snd kv) = acc @ [kv]" if "fst kv \<notin> fst ` set acc" for acc
    using that by (induction acc) auto
  from Cons.prems have "fst kv \<notin> fst ` set acc" by auto
  then have "setProperty acc (fst kv) (snd kv) = acc @ [kv]" by (rule sp)
  moreover from Cons.prems have "distinct (map fst ((acc @ [kv]) @ kvs))" by simp
  ultimately show ?case using Cons.IH [of "acc @ [kv]"] by simp
qed

text \<open>
  For rules on the default, case-sensitive path with a non-empty \<open>real\<close>, the outbound
  rewriting of a string applies the rules in configuration order, each replacing every
  occurrence of \<open>real\<close> (found from the left, none overlapping): by \<open>fake\<close> for a
  bidirectional rule, and for a one-way rule by \<open>responseReplacement\<close> when that is set
  and not empty, by the redaction token otherwise.
\<close>

theorem outbound_rewrite:
  "list_all (\<lambda>r. caseSensitive r \<noteq> Some False \<and> real r \<noteq> []) reps \<Longrightarrow>
   replaceInValue cn reps s ToFake =
     foldl (\<lambda>acc r. replaceAll (real r)
                       (if bidirectional r then fake r
                        else (case responseReplacement r of
                                None \<Rightarrow> ''***REDACTED***''
                              | Some x \<Rightarrow> if x = [] then ''***REDACTED***'' else x)) acc) s reps"
proof (induction reps arbitrary: s)
  case Nil
  then show ?case by (simp add: replaceInValue_def)
next
  case (Cons r reps)
  then show ?case
    by (simp add: replaceInValue_def applyReplacement_def join_split_replaceAll orElse_def
        REDACTED_def Let_def split: option.splits)
qed

theorem outbound_rewrite_witness:
  "list_all (\<lambda>r. caseSensitive r \<noteq> Some False \<and> real r \<noteq> [])
     [oneWayRule (Some ''#''), oneWayRule None]
   \<and> replaceInValue (\<lambda>c. c) [oneWayRule (Some ''#''), oneWayRule None] ''a sk_secret b'' ToFake
       = ''a # b''"
  using outbound_rewrite [of "[oneWayRule (Some ''#''), oneWayRule None]" "\<lambda>c. c" "''a sk_secret b''"]
  by (simp add: oneWayRule_def startsWith_def)

text \<open>
  The traversal rewrites string leaves, array elements, and the keys and values of an
  object, and returns the other scalars as they are.  (When two rewritten keys of one
  object are equal, the later value takes the place of the earlier; with distinct
  rewritten keys the object is rewritten entry by entry.)
\<close>

theorem traversal_shape:
  "deepTraverse f (JStr s) = JStr (f s)
   \<and> deepTraverse f (JArr items) = JArr (map (deepTraverse f) items)
   \<and> deepTraverse f JNull = JNull
   \<and> deepTraverse f (JBool b) = JBool b
   \<and> deepTraverse f (JNum n) = JNum n
   \<and> (distinct (map (\<lambda>kv. f (fst kv)) kvs) \<longrightarrow>
        deepTraverse f (JObj kvs) = JObj (map (\<lambda>kv. (f (fst kv), deepTraverse f (snd kv))) kvs))"
  using foldl_setProperty_distinct [of "[]" "map (\<lambda>kv. (f (fst kv), deepTraverse f (snd kv))) kvs"]
  by (simp add: comp_def)

theorem traversal_shape_witness:
  "distinct (map (\<lambda>kv. rev (fst kv)) [(''ab'', JNum 1), (''cd'', JStr ''xy'')])
   \<and> deepTraverse rev (JObj [(''ab'', JNum 1), (''cd'', JStr ''xy'')])
       = JObj [(''ba'', JNum 1), (''dc'', JStr ''yx'')]"
  using traversal_shape [of rev "[]" "[]" True 0 "[(''ab'', JNum 1), (''cd'', JStr ''xy'')]"]
  by simp

section \<open>The policy resolver returns the first hit\<close>







text \<open>
  The scenario of the specification: with the dynamic rule \<open>x/*\<close>: allow and the static
  entry \<open>x/y\<close>: deny, the tool \<open>x/y\<close> resolves to allow from the dynamic rule; without the
  rule it resolves to deny from the static entry.
\<close>

theorem pattern_precedence_scenario:
  "checkPolicyDetailed
     \<lparr> policies = [(''x/y'', Deny)], defaultPolicy = Allow, hasPolicyRulesDB = True \<rparr>
     (Document [\<lparr> rule_id = ''r1'', rule_pattern = ''x/*'', rule_action = Allow, rule_createdAt = 0 \<rparr>])
     ''x/y''
   = \<lparr> action = Allow, source = DbRule, pattern = Some ''x/*'', ruleId = Some ''r1'' \<rparr>
   \<and> checkPolicyDetailed
     \<lparr> policies = [(''x/y'', Deny)], defaultPolicy = Allow, hasPolicyRulesDB = True \<rparr>
     (Document []) ''x/y''
   = \<lparr> action = Deny, source = ConfigExact, pattern = Some ''x/y'', ruleId = None \<rparr>"
  by code_simp

text \<open>
  \<open>upsert\<close> keeps one rule per pattern, and the action it was given is the one the
  resolver then finds for a tool named like the pattern.
\<close>

theorem upsert_latest_wins:
  "distinct (map rule_pattern (readJsonFile rulesJson [])) \<Longrightarrow>
     distinct (map rule_pattern (readJsonFile (PolicyRulesDB_upsert newId now pat act rulesJson) []))
   \<and> map_option rule_action (resolveDetailed (PolicyRulesDB_upsert newId now pat act rulesJson) pat)
       = Some act
   \<and> rule_pattern ` set (readJsonFile (PolicyRulesDB_upsert newId now pat act rulesJson) [])
       = insert pat (rule_pattern ` set (readJsonFile rulesJson []))"
proof -
  assume d: "distinct (map rule_pattern (readJsonFile rulesJson []))"
  let ?data = "readJsonFile rulesJson []"
  let ?P = "\<lambda>r. rule_pattern r = pat"
  let ?f = "\<lambda>r. r\<lparr> rule_action := act \<rparr>"
  have m: "map rule_pattern (updateFirst ?P ?f xs) = map rule_pattern xs" for xs
    by (induction xs) auto
  have fnd: "find ?P (updateFirst ?P ?f xs) = map_option ?f (find ?P xs)" for xs
    by (rule find_updateFirst) simp
  show ?thesis
  proof (cases "find ?P ?data")
    case None
    then have "pat \<notin> rule_pattern ` set ?data"
      by (auto simp: find_None_iff)
    with None d show ?thesis
      by (simp add: PolicyRulesDB_upsert_def Let_def writeJsonFileAtomic_def readJsonFile_def
          resolveDetailed_def)
  next
    case (Some r)
    then have mem: "pat \<in> rule_pattern ` set ?data"
      by (auto simp: find_Some_iff)
    have img: "rule_pattern ` set (updateFirst ?P ?f ?data) = rule_pattern ` set ?data"
      using m [of ?data] by (metis set_map)
    have dst: "distinct (map rule_pattern (updateFirst ?P ?f ?data))"
      using d by (simp add: m)
    have upd: "PolicyRulesDB_upsert newId now pat act rulesJson
                 = Document (updateFirst ?P ?f ?data)"
      using Some by (simp add: PolicyRulesDB_upsert_def Let_def writeJsonFileAtomic_def)
    show ?thesis
      unfolding upd using dst img mem fnd [of ?data] Some
      by (simp add: readJsonFile_def resolveDetailed_def insert_absorb)
  qed
qed

theorem upsert_latest_wins_witness:
  "distinct (map rule_pattern (readJsonFile
       (Document [\<lparr> rule_id = ''r1'', rule_pattern = ''x/y'', rule_action = Allow,
                    rule_createdAt = 0 \<rparr>]) []))
   \<and> map_option rule_action
        (resolveDetailed
           (PolicyRulesDB_upsert ''r2'' 7 ''x/y'' Deny
              (Document [\<lparr> rule_id = ''r1'', rule_pattern = ''x/y'', rule_action = Allow,
                           rule_createdAt = 0 \<rparr>])) ''x/y'')
       = Some Deny"
  using upsert_latest_wins
          [of "Document [\<lparr> rule_id = ''r1'', rule_pattern = ''x/y'', rule_action = Allow,
                            rule_createdAt = 0 \<rparr>]" "''r2''" 7 "''x/y''" Deny]
  by (simp add: readJsonFile_def)

section \<open>A corrupted collection file is read as empty\<close>


section \<open>The tasks store checks no transition\<close>

text \<open>
  C2, as stated, fails: the store performs a transition that is no edge of the state
  machine, silently.  A denied task (a terminal state) given to \<open>setResult\<close> becomes
  completed.
\<close>

theorem disallowed_transition_counterexample:
  "\<not> fsmEdge Denied Completed
   \<and> map_option t_status (TasksDB_get ''t1'' (Document [exampleTask\<lparr> t_status := Denied \<rparr>]))
       = Some Denied
   \<and> map_option t_status
        (TasksDB_get ''t1''
          (TasksDB_setResult 5000 ''t1'' (JStr ''late'')
             (Document [exampleTask\<lparr> t_status := Denied \<rparr>])))
       = Some Completed"
  by (simp add: TasksDB_get_def TasksDB_setResult_def readJsonFile_def writeJsonFileAtomic_def
      exampleTask_def)

text \<open>
  C2, amended.  The tasks store checks no transition.  For a task id that exists,
  \<open>updateStatus\<close> sets the status it is given, \<open>setResult\<close> sets \<open>completed\<close> and the result,
  \<open>setError\<close> sets \<open>error\<close> and the message, whatever the status was; for an id that does
  not exist each of them leaves the file as it is.  None of them fails.
\<close>

theorem task_store_checks_no_transition:
  "(TasksDB_get tid f = Some task \<longrightarrow>
      map_option t_status (TasksDB_get tid (TasksDB_updateStatus now tid status f)) = Some status
      \<and> map_option t_status (TasksDB_get tid (TasksDB_setResult now tid res f)) = Some Completed
      \<and> map_option t_result (TasksDB_get tid (TasksDB_setResult now tid res f)) = Some (Some res)
      \<and> map_option t_status (TasksDB_get tid (TasksDB_setError now tid err f)) = Some Error
      \<and> map_option t_error (TasksDB_get tid (TasksDB_setError now tid err f)) = Some (Some err))
   \<and> (TasksDB_get tid f = None \<longrightarrow>
      TasksDB_updateStatus now tid status f = f
      \<and> TasksDB_setResult now tid res f = f
      \<and> TasksDB_setError now tid err f = f)"
proof (intro conjI impI)
  assume "TasksDB_get tid f = None"
  then show "TasksDB_updateStatus now tid status f = f" "TasksDB_setResult now tid res f = f"
    "TasksDB_setError now tid err f = f"
    by (simp_all add: TasksDB_get_def TasksDB_updateStatus_def TasksDB_setResult_def
        TasksDB_setError_def Let_def)
next
  assume a: "TasksDB_get tid f = Some task"
  show "map_option t_status (TasksDB_get tid (TasksDB_updateStatus now tid status f)) = Some status"
    by (simp add: TasksDB_get_updateStatus a Let_def)
  show "map_option t_status (TasksDB_get tid (TasksDB_setResult now tid res f)) = Some Completed"
    by (simp add: TasksDB_get_setResult a)
  show "map_option t_result (TasksDB_get tid (TasksDB_setResult now tid res f)) = Some (Some res)"
    by (simp add: TasksDB_get_setResult a)
  show "map_option t_status (TasksDB_get tid (TasksDB_setError now tid err f)) = Some Error"
    by (simp add: TasksDB_get_setError a)
  show "map_option t_error (TasksDB_get tid (TasksDB_setError now tid err f)) = Some (Some err)"
    by (simp add: TasksDB_get_setError a)
qed

theorem task_store_checks_no_transition_witness:
  "TasksDB_get ''t1'' (Document [exampleTask\<lparr> t_status := Completed \<rparr>])
     = Some (exampleTask\<lparr> t_status := Completed \<rparr>)
   \<and> map_option t_status
        (TasksDB_get ''t1''
           (TasksDB_setError 5000 ''t1'' ''boom''
              (Document [exampleTask\<lparr> t_status := Completed \<rparr>])))
       = Some Error
   \<and> TasksDB_get ''t2'' (Document [exampleTask]) = None
   \<and> TasksDB_updateStatus 5000 ''t2'' Executing (Document [exampleTask]) = Document [exampleTask]"
  using task_store_checks_no_transition
          [of "''t1''" "Document [exampleTask\<lparr> t_status := Completed \<rparr>]"
              "exampleTask\<lparr> t_status := Completed \<rparr>" 5000 Executing JNull "''boom''"]
        task_store_checks_no_transition
          [of "''t2''" "Document [exampleTask]" exampleTask 5000 Executing JNull "''boom''"]
  by (simp add: TasksDB_get_def readJsonFile_def exampleTask_def)

text \<open>
  The transitions of the state machine are those the callers make.  The decision handler
  changes nothing unless the task it is given is \<open>pending-approval\<close>.
\<close>

theorem decision_needs_pending:
  "\<not> startsWith cbData ''change_policy:'' \<Longrightarrow>
   list_all (\<lambda>t. t_status t \<noteq> PendingApproval) (readJsonFile (tasksFile w) []) \<Longrightarrow>
   callbackQuery e chatId cbData w = (w, None)"
proof -
  assume a: "\<not> startsWith cbData ''change_policy:''"
    and b: "list_all (\<lambda>t. t_status t \<noteq> PendingApproval) (readJsonFile (tasksFile w) [])"
  have "t_status task \<noteq> PendingApproval" if "TasksDB_get tid (tasksFile w) = Some task" for tid task
  proof -
    from that have "task \<in> set (readJsonFile (tasksFile w) [])"
      by (auto simp: TasksDB_get_def find_Some_iff)
    with b show ?thesis by (simp add: list_all_iff)
  qed
  with a show ?thesis
    by (auto simp: callbackQuery_def Let_def split: option.splits)
qed

theorem decision_needs_pending_witness:
  "\<not> startsWith ''approve:t1'' ''change_policy:''
   \<and> list_all (\<lambda>t. t_status t \<noteq> PendingApproval)
        (readJsonFile (tasksFile (exampleWorld\<lparr> tasksFile :=
            Document [exampleTask\<lparr> t_status := Denied \<rparr>] \<rparr>)) [])
   \<and> callbackQuery exampleEnv (Some ''111'') ''approve:t1''
        (exampleWorld\<lparr> tasksFile := Document [exampleTask\<lparr> t_status := Denied \<rparr>] \<rparr>)
       = (exampleWorld\<lparr> tasksFile := Document [exampleTask\<lparr> t_status := Denied \<rparr>] \<rparr>, None)"
  using decision_needs_pending
          [of "''approve:t1''"
              "exampleWorld\<lparr> tasksFile := Document [exampleTask\<lparr> t_status := Denied \<rparr>] \<rparr>"
              exampleEnv "Some ''111''"]
  by (simp add: startsWith_def readJsonFile_def exampleWorld_def exampleTask_def)

text \<open>
  For a pending task and the paired admin, \<open>approve\<close> moves the task to
  \<open>approved-queued\<close> and hands it to the executor, and \<open>deny\<close> moves it to \<open>denied\<close>.
\<close>

theorem decision_on_pending:
  "isAdmin (telegramBot w) chatId \<Longrightarrow> taskId \<noteq> [] \<Longrightarrow>
   TasksDB_get taskId (tasksFile w) = Some task \<Longrightarrow> t_status task = PendingApproval \<Longrightarrow>
     callbackQuery e chatId (''approve:'' @ taskId) w
       = (w\<lparr> tasksFile := TasksDB_updateStatus (clock e) taskId ApprovedQueued (tasksFile w) \<rparr>,
          Some taskId)
   \<and> callbackQuery e chatId (''deny:'' @ taskId) w
       = (w\<lparr> tasksFile := TasksDB_updateStatus (clock e) taskId Denied (tasksFile w) \<rparr>, None)
   \<and> map_option t_status
        (TasksDB_get taskId (tasksFile (fst (callbackQuery e chatId (''approve:'' @ taskId) w))))
       = Some ApprovedQueued
   \<and> map_option t_status
        (TasksDB_get taskId (tasksFile (fst (callbackQuery e chatId (''deny:'' @ taskId) w))))
       = Some Denied"
  by (simp add: callbackQuery_def Let_def startsWith_def TasksDB_get_updateStatus)

theorem decision_on_pending_witness:
  "isAdmin (telegramBot (exampleWorld\<lparr> tasksFile := Document [exampleTask] \<rparr>)) (Some ''111'')
   \<and> TasksDB_get ''t1'' (tasksFile (exampleWorld\<lparr> tasksFile := Document [exampleTask] \<rparr>))
       = Some exampleTask
   \<and> t_status exampleTask = PendingApproval
   \<and> snd (callbackQuery exampleEnv (Some ''111'') ''approve:t1''
            (exampleWorld\<lparr> tasksFile := Document [exampleTask] \<rparr>)) = Some ''t1''
   \<and> map_option t_status
        (TasksDB_get ''t1'' (tasksFile (fst (callbackQuery exampleEnv (Some ''111'') ''deny:t1''
            (exampleWorld\<lparr> tasksFile := Document [exampleTask] \<rparr>)))))
       = Some Denied"
proof -
  have h1: "isAdmin (telegramBot (exampleWorld\<lparr> tasksFile := Document [exampleTask] \<rparr>))
              (Some ''111'')"
    by (simp add: isAdmin_def exampleWorld_def exampleBot_def)
  have h2: "''t1'' \<noteq> []"
    by simp
  have h3: "TasksDB_get ''t1'' (tasksFile (exampleWorld\<lparr> tasksFile := Document [exampleTask] \<rparr>))
              = Some exampleTask"
    by (simp add: TasksDB_get_def readJsonFile_def exampleTask_def)
  have h4: "t_status exampleTask = PendingApproval"
    by (simp add: exampleTask_def)
  have a: "''approve:'' @ ''t1'' = ''approve:t1''" and d: "''deny:'' @ ''t1'' = ''deny:t1''"
    by simp_all
  note th = decision_on_pending [OF h1 h2 h3 h4, of exampleEnv, unfolded a d]
  from th have "callbackQuery exampleEnv (Some ''111'') ''approve:t1''
                  (exampleWorld\<lparr> tasksFile := Document [exampleTask] \<rparr>)
                = (exampleWorld\<lparr> tasksFile := Document [exampleTask] \<rparr>
                     \<lparr> tasksFile := TasksDB_updateStatus (clock exampleEnv) ''t1'' ApprovedQueued
                        (tasksFile (exampleWorld\<lparr> tasksFile := Document [exampleTask] \<rparr>)) \<rparr>,
                   Some ''t1'')"
    by blast
  then have s1: "snd (callbackQuery exampleEnv (Some ''111'') ''approve:t1''
                  (exampleWorld\<lparr> tasksFile := Document [exampleTask] \<rparr>)) = Some ''t1''"
    by (simp only: snd_conv)
  from th have s2: "map_option t_status
        (TasksDB_get ''t1'' (tasksFile (fst (callbackQuery exampleEnv (Some ''111'') ''deny:t1''
            (exampleWorld\<lparr> tasksFile := Document [exampleTask] \<rparr>)))))
       = Some Denied"
    by blast
  show ?thesis
    using h1 h3 h4 s1 s2 by blast
qed

text \<open>
  The executor ends a task in \<open>completed\<close> when the backend call succeeds and in \<open>error\<close>
  when it fails.
\<close>

theorem executor_finishes_task:
  "TasksDB_get taskId (tasksFile w) = Some task \<Longrightarrow>
   map_option t_status (TasksDB_get taskId (tasksFile (executeApprovedTask e reps taskId w)))
     = Some (if isl (fst (Router_callTool e (t_toolName task) (t_args task) w)) then Error else Completed)"
  using Router_callTool_fst [of e "t_toolName task" "t_args task"
      "w\<lparr> tasksFile := TasksDB_updateStatus (clock e) taskId Executing (tasksFile w) \<rparr>" w]
  by (auto simp: executeApprovedTask_def Let_def TasksDB_get_setResult TasksDB_get_setError
      TasksDB_get_updateStatus Router_callTool_tasksFile isl_def split: sum.splits)

theorem executor_finishes_task_witness:
  "TasksDB_get ''t1'' (tasksFile (exampleWorld\<lparr> tasksFile :=
       Document [exampleTask\<lparr> t_status := ApprovedQueued \<rparr>] \<rparr>))
     = Some (exampleTask\<lparr> t_status := ApprovedQueued \<rparr>)
   \<and> map_option t_status
        (TasksDB_get ''t1'' (tasksFile (executeApprovedTask exampleEnv [] ''t1''
           (exampleWorld\<lparr> tasksFile :=
              Document [exampleTask\<lparr> t_status := ApprovedQueued \<rparr>] \<rparr>))))
       = Some Error"
proof -
  have r: "isl (fst (Router_callTool exampleEnv
                      (t_toolName (exampleTask\<lparr> t_status := ApprovedQueued \<rparr>))
                      (t_args (exampleTask\<lparr> t_status := ApprovedQueued \<rparr>))
                      (exampleWorld\<lparr> tasksFile :=
                         Document [exampleTask\<lparr> t_status := ApprovedQueued \<rparr>] \<rparr>)))"
    by code_simp
  have g: "TasksDB_get ''t1'' (tasksFile (exampleWorld\<lparr> tasksFile :=
       Document [exampleTask\<lparr> t_status := ApprovedQueued \<rparr>] \<rparr>))
     = Some (exampleTask\<lparr> t_status := ApprovedQueued \<rparr>)"
    by (simp add: TasksDB_get_def readJsonFile_def exampleTask_def)
  from executor_finishes_task [OF g, of exampleEnv "[]"] r g show ?thesis
    by simp
qed

section \<open>Pairing\<close>

text \<open>
  C9, as stated, fails: the bot is paired with chat 111, chat 222 presents the pairing
  code, and chat 222 is the admin from then on; chat 111 no longer is.
\<close>

theorem repairing_counterexample:
  "isAdmin (telegramBot exampleWorld) (Some ''111'')
   \<and> adminChatId (telegramBot (snd (pairCommand (Some ''222'') ''/pair s3cret'' exampleWorld))) = ''222''
   \<and> \<not> isAdmin (telegramBot (snd (pairCommand (Some ''222'') ''/pair s3cret'' exampleWorld))) (Some ''111'')"
  by (simp add: pairCommand_def commandArgument_def exampleWorld_def exampleBot_def isAdmin_def
      splitString_def startsWith_def trim_def isWhiteSpace_def writeJsonFileAtomic_def Let_def)

text \<open>
  C9, amended.  Whenever pairing is enabled and a chat with a readable id presents the
  pairing code, paired before or not, that chat becomes the admin: it is stored in the
  bot and in the admin file, and from then on \<open>isAdmin\<close> holds of that chat and of no
  other.  A pair command that presents another code, or none, or arrives while pairing is
  disabled or without a chat id, changes nothing.
\<close>

theorem pair_binds_presenter:
  "(pairingCode (telegramBot w) \<noteq> [] \<and> commandArgument text = pairingCode (telegramBot w) \<and> c \<noteq> [] \<longrightarrow>
       adminChatId (telegramBot (snd (pairCommand (Some c) text w))) = c
     \<and> adminFile (snd (pairCommand (Some c) text w)) = Document (Some c)
     \<and> (\<forall>x. isAdmin (telegramBot (snd (pairCommand (Some c) text w))) x = (x = Some c)))
   \<and> (pairingCode (telegramBot w) = [] \<or> commandArgument text \<noteq> pairingCode (telegramBot w)
         \<or> chatId = None \<or> chatId = Some [] \<longrightarrow>
       snd (pairCommand chatId text w) = w)"
  by (auto simp: pairCommand_def Let_def isAdmin_def writeJsonFileAtomic_def split: option.splits)

theorem pair_binds_presenter_witness:
  "pairingCode (telegramBot exampleWorld) \<noteq> []
   \<and> commandArgument ''/pair s3cret'' = pairingCode (telegramBot exampleWorld)
   \<and> adminFile (snd (pairCommand (Some ''222'') ''/pair s3cret'' exampleWorld)) = Document (Some ''222'')
   \<and> commandArgument ''/pair guess'' \<noteq> pairingCode (telegramBot exampleWorld)
   \<and> snd (pairCommand (Some ''222'') ''/pair guess'' exampleWorld) = exampleWorld"
  using pair_binds_presenter [of exampleWorld "''/pair s3cret''" "''222''" "Some ''222''"]
        pair_binds_presenter [of exampleWorld "''/pair guess''" "''222''" "Some ''222''"]
  by (simp add: commandArgument_def exampleWorld_def exampleBot_def
      splitString_def startsWith_def trim_def isWhiteSpace_def)

section \<open>The virtual tool portero/check-task\<close>




section \<open>The request pipeline\<close>

lemma activeGrantLoop_iff:
  "activeGrantLoop now toolName gs =
     (\<exists>g \<in> set gs. \<exists>exp. g_expiresAt g = Some exp \<and> now < exp
                        \<and> matchesPattern toolName (g_pattern g))"
  by (induction gs) (auto split: option.splits)

text \<open>
  A grant is active when its expiry is a date strictly after the current time;
  \<open>hasActiveGrant\<close> holds exactly when some active grant's pattern matches the tool name.
\<close>

theorem grant_active_iff:
  "hasActiveGrant now grantsJson toolName =
     (\<exists>g \<in> set (readJsonFile grantsJson []). \<exists>exp.
         g_expiresAt g = Some exp \<and> now < exp \<and> matchesPattern toolName (g_pattern g))"
  by (simp add: hasActiveGrant_def activeGrantLoop_iff)

lemma pipelineCatch_fst: "fst (pipelineCatch e h name args policy hasGrant msg w) = Inl msg"
  by (simp add: pipelineCatch_def Let_def)

lemma pipelineCatch_frame:
  "tasksFile (snd (pipelineCatch e h name args policy hasGrant msg w)) = tasksFile w
   \<and> backendCalls (snd (pipelineCatch e h name args policy hasGrant msg w)) = backendCalls w"
  by (simp add: pipelineCatch_def Let_def)


text \<open>
  The path taken when the policy is not \<open>deny\<close> and approval is not required or is
  covered by a grant: the call goes to the router with the anonymized arguments, the
  reply is the deanonymized result or the router's error, and no task is written.
\<close>

lemma pipeline_dispatch:
  assumes "action (checkPolicyDetailed (policyEngine h) (rulesFile w) name) \<noteq> Deny"
    and "action (checkPolicyDetailed (policyEngine h) (rulesFile w) name) = RequireApproval
           \<Longrightarrow> hasActiveGrant (clock e) (grantsFile w) name"
  shows "fst (executeToolPipeline e h name args w) =
           (case fst (Router_callTool e name (anonymizeRequest (canon e) (replacements h) args) w) of
              Inl err \<Rightarrow> Inl err
            | Inr res \<Rightarrow> Inr (Raw (deanonymizeResponse (canon e) (replacements h) res)))
       \<and> tasksFile (snd (executeToolPipeline e h name args w)) = tasksFile w
       \<and> backendCalls (snd (executeToolPipeline e h name args w)) =
           backendCalls
             (snd (Router_callTool e name (anonymizeRequest (canon e) (replacements h) args) w))"
  using assms
  by (auto simp: executeToolPipeline_def Let_def pipelineCatch_fst pipelineCatch_frame
      Router_callTool_tasksFile split: sum.splits)



text \<open>
  C5, as stated, fails: with the bot not yet paired, a call denied by policy enqueues no
  notification.
\<close>

theorem deny_unpaired_counterexample:
  "action (checkPolicyDetailed (policyEngine (exampleHandler Deny))
             (rulesFile (exampleWorld\<lparr> telegramBot := exampleBot\<lparr> adminChatId := [] \<rparr> \<rparr>))
             ''filesystem/delete_file'')
     = Deny
   \<and> noticeQueue (telegramBot (snd (executeToolPipeline exampleEnv (exampleHandler Deny)
         ''filesystem/delete_file'' JNull
         (exampleWorld\<lparr> telegramBot := exampleBot\<lparr> adminChatId := [] \<rparr> \<rparr>)))) = []"
  by (simp add: executeToolPipeline_def Let_def pipelineCatch_def checkPolicyDetailed_def
      resolveDetailed_def readJsonFile_def exampleHandler_def exampleWorld_def exampleBot_def
      enqueueExecutionNotice_def)

text \<open>
  C5, amended.  When the policy resolves to \<open>deny\<close>, the pipeline throws the error whose
  message is \<open>Tool <name> is denied by policy\<close>, which becomes a JSON-RPC error; no backend
  is called and no task is written; exactly one audit record is appended, with its error
  field set and no approval status; and exactly one notification with status \<open>blocked\<close>
  is enqueued when the handler has a bot and the bot is paired, none otherwise.
\<close>

theorem deny_path:
  "action (checkPolicyDetailed (policyEngine h) (rulesFile w) name) = Deny \<Longrightarrow>
     fst (executeToolPipeline e h name args w) = Inl (''Tool '' @ name @ '' is denied by policy'')
   \<and> jsonRpcResponse (fst (executeToolPipeline e h name args w))
       = RpcError (- 32603) (''Tool '' @ name @ '' is denied by policy'')
   \<and> backendCalls (snd (executeToolPipeline e h name args w)) = backendCalls w
   \<and> tasksFile (snd (executeToolPipeline e h name args w)) = tasksFile w
   \<and> (\<exists>row. auditLog (snd (executeToolPipeline e h name args w)) = auditLog w @ [row]
          \<and> a_toolName row = name
          \<and> a_error row = Some (''Tool '' @ name @ '' is denied by policy'')
          \<and> a_approvalStatus row = None)
   \<and> (hasTelegramBot h \<and> adminChatId (telegramBot w) \<noteq> [] \<longrightarrow>
        (\<exists>n. noticeQueue (telegramBot (snd (executeToolPipeline e h name args w)))
                = noticeQueue (telegramBot w) @ [n]
           \<and> n_status n = NoticeBlocked \<and> n_toolName n = name))
   \<and> (adminChatId (telegramBot w) = [] \<or> \<not> hasTelegramBot h \<longrightarrow>
        noticeQueue (telegramBot (snd (executeToolPipeline e h name args w)))
          = noticeQueue (telegramBot w))"
  by (auto simp: executeToolPipeline_def Let_def pipelineCatch_def deniedMessage_def
      jsonRpcResponse_def AuditDB_log_def enqueueExecutionNotice_def)

theorem deny_path_witness:
  "action (checkPolicyDetailed (policyEngine (exampleHandler Deny)) (rulesFile exampleWorld)
             ''filesystem/delete_file'') = Deny
   \<and> fst (executeToolPipeline exampleEnv (exampleHandler Deny) ''filesystem/delete_file'' JNull
             exampleWorld)
       = Inl ''Tool filesystem/delete_file is denied by policy''
   \<and> length (noticeQueue (telegramBot (snd (executeToolPipeline exampleEnv (exampleHandler Deny)
                ''filesystem/delete_file'' JNull exampleWorld)))) = 1"
  using deny_path [of "exampleHandler Deny" exampleWorld "''filesystem/delete_file''" exampleEnv JNull]
  by (auto simp: checkPolicyDetailed_def resolveDetailed_def readJsonFile_def exampleHandler_def
      exampleWorld_def exampleBot_def)

text \<open>
  C6.  When the policy resolves to \<open>require-approval\<close> and some grant whose pattern
  matches the tool name expires strictly after the current time, no task is created:
  the call goes to the router with the anonymized arguments, and the reply is the
  deanonymized backend result (or the router's error).  Reply, tasks file and backend
  calls are those of the same call under a policy that resolves to \<open>allow\<close>.
\<close>

theorem active_grant_skips_approval:
  assumes "action (checkPolicyDetailed (policyEngine h) (rulesFile w) name) = RequireApproval"
    and "g \<in> set (readJsonFile (grantsFile w) [])"
    and "g_expiresAt g = Some exp"
    and "clock e < exp"
    and "matchesPattern name (g_pattern g)"
  shows "tasksFile (snd (executeToolPipeline e h name args w)) = tasksFile w
    \<and> backendCalls (snd (executeToolPipeline e h name args w)) =
         backendCalls
           (snd (Router_callTool e name (anonymizeRequest (canon e) (replacements h) args) w))
    \<and> fst (executeToolPipeline e h name args w) =
         (case fst (Router_callTool e name (anonymizeRequest (canon e) (replacements h) args) w) of
            Inl err \<Rightarrow> Inl err
          | Inr res \<Rightarrow> Inr (Raw (deanonymizeResponse (canon e) (replacements h) res)))
    \<and> (action (checkPolicyDetailed (policyEngine h') (rulesFile w) name) = Allow
          \<and> replacements h' = replacements h \<longrightarrow>
        fst (executeToolPipeline e h name args w) = fst (executeToolPipeline e h' name args w)
        \<and> tasksFile (snd (executeToolPipeline e h name args w))
            = tasksFile (snd (executeToolPipeline e h' name args w))
        \<and> backendCalls (snd (executeToolPipeline e h name args w))
            = backendCalls (snd (executeToolPipeline e h' name args w)))"
proof -
  have grant: "hasActiveGrant (clock e) (grantsFile w) name"
    unfolding hasActiveGrant_def activeGrantLoop_iff using assms(2-5) by blast
  have here: "action (checkPolicyDetailed (policyEngine h) (rulesFile w) name) \<noteq> Deny"
    using assms(1) by simp
  note d = pipeline_dispatch [OF here grant, of args]
  { assume a: "action (checkPolicyDetailed (policyEngine h') (rulesFile w) name) = Allow"
      and r: "replacements h' = replacements h"
    have "action (checkPolicyDetailed (policyEngine h') (rulesFile w) name) \<noteq> Deny"
      using a by simp
    moreover have "action (checkPolicyDetailed (policyEngine h') (rulesFile w) name) = RequireApproval
           \<Longrightarrow> hasActiveGrant (clock e) (grantsFile w) name"
      using a by simp
    ultimately have d': "fst (executeToolPipeline e h' name args w) =
           (case fst (Router_callTool e name (anonymizeRequest (canon e) (replacements h') args) w) of
              Inl err \<Rightarrow> Inl err
            | Inr res \<Rightarrow> Inr (Raw (deanonymizeResponse (canon e) (replacements h') res)))
       \<and> tasksFile (snd (executeToolPipeline e h' name args w)) = tasksFile w
       \<and> backendCalls (snd (executeToolPipeline e h' name args w)) =
           backendCalls
             (snd (Router_callTool e name (anonymizeRequest (canon e) (replacements h') args) w))"
      by (rule pipeline_dispatch)
    have "fst (executeToolPipeline e h name args w) = fst (executeToolPipeline e h' name args w)
        \<and> tasksFile (snd (executeToolPipeline e h name args w))
            = tasksFile (snd (executeToolPipeline e h' name args w))
        \<and> backendCalls (snd (executeToolPipeline e h name args w))
            = backendCalls (snd (executeToolPipeline e h' name args w))"
      using d d'[unfolded r] by simp }
  then show ?thesis using d by blast
qed

theorem active_grant_skips_approval_witness:
  "action (checkPolicyDetailed (policyEngine (exampleHandler RequireApproval))
             (rulesFile grantedWorld) ''echo/say'') = RequireApproval
   \<and> exampleGrant \<in> set (readJsonFile (grantsFile grantedWorld) [])
   \<and> clock exampleEnv < 6000
   \<and> matchesPattern ''echo/say'' (g_pattern exampleGrant)
   \<and> tasksFile (snd (executeToolPipeline exampleEnv (exampleHandler RequireApproval)
                        ''echo/say'' (JStr ''hi'') grantedWorld)) = Document []
   \<and> backendCalls (snd (executeToolPipeline exampleEnv (exampleHandler RequireApproval)
                        ''echo/say'' (JStr ''hi'') grantedWorld)) = [(''echo'', ''say'', JStr ''hi'')]
   \<and> fst (executeToolPipeline exampleEnv (exampleHandler RequireApproval)
             ''echo/say'' (JStr ''hi'') grantedWorld) = Inr (Raw (JStr ''hi''))"
proof -
  have h1: "action (checkPolicyDetailed (policyEngine (exampleHandler RequireApproval))
             (rulesFile grantedWorld) ''echo/say'') = RequireApproval"
    by code_simp
  have h2: "exampleGrant \<in> set (readJsonFile (grantsFile grantedWorld) [])"
    by (simp add: grantedWorld_def readJsonFile_def)
  have h3: "g_expiresAt exampleGrant = Some 6000"
    by (simp add: exampleGrant_def)
  have h4: "clock exampleEnv < 6000"
    by (simp add: exampleEnv_def)
  have h5: "matchesPattern ''echo/say'' (g_pattern exampleGrant)"
    by code_simp
  have r: "Router_callTool exampleEnv ''echo/say''
             (anonymizeRequest (canon exampleEnv) (replacements (exampleHandler RequireApproval))
                (JStr ''hi'')) grantedWorld
           = (Inr (JStr ''hi''), grantedWorld\<lparr> backendCalls := [(''echo'', ''say'', JStr ''hi'')] \<rparr>)"
    by code_simp
  have d: "deanonymizeResponse (canon exampleEnv) (replacements (exampleHandler RequireApproval))
             (JStr ''hi'') = JStr ''hi''"
    by code_simp
  have t: "tasksFile grantedWorld = Document []"
    by (simp add: grantedWorld_def exampleWorld_def)
  show ?thesis
    using active_grant_skips_approval [OF h1 h2 h3 h4 h5, of "JStr ''hi''" "exampleHandler Allow"]
      h1 h2 h4 h5
    by (simp add: r d t)
qed

end
